theory Spec2Isabelle
  imports Complex_Main
begin

section \<open>Data model\<close>

text \<open>
  The server reads untyped JSON. A property of a JSON object that the code tests before
  use is modelled by the three cases JavaScript distinguishes: the key is absent
  (\<open>Undefined\<close>), it holds \<open>null\<close> (\<open>Null\<close>), or it holds a value. Identity fields that
  the code compares with \<open>===\<close> and never tests (\<open>id\<close>, \<open>symbol\<close>, \<open>name\<close>) are plain
  strings. JavaScript numbers are modelled as exact reals, the non-finite values \<open>NaN\<close>
  and \<open>Infinity\<close> being outside the model; the rounding of IEEE doubles is modelled
  where the claims depend on it, in the concentration index. Strings are lists of 8-bit
  characters, read as ASCII.
\<close>

datatype 'a field = Undefined | Null | Val 'a

text \<open>JavaScript truthiness of a string and of a number property.\<close>

definition truthy_str :: "string field \<Rightarrow> bool" where
  "truthy_str f = (case f of Val s \<Rightarrow> s \<noteq> [] | _ \<Rightarrow> False)"

definition truthy_num :: "real field \<Rightarrow> bool" where
  "truthy_num f = (case f of Val x \<Rightarrow> x \<noteq> 0 | _ \<Rightarrow> False)"

record director =
  d_name :: string
  d_position :: string

record company =
  c_id :: string
  c_symbol :: string
  c_name :: string
  c_ticker :: "string field"
  c_sector :: "string field"
  c_market_cap :: "real field"
  c_price_to_earnings :: "real field"
  c_pe_ratio :: "real field"
  c_directors :: "director list field"

record price =
  close :: real

record position =
  p_shareholder_name :: "string field"
  p_name :: "string field"
  p_company_symbol :: "string field"
  p_ticker :: "string field"
  p_percentage :: "real field"

section \<open>Remote Data Gateway\<close>

text \<open>
  \<open>fetchAPI\<close> issues one GET request and either throws \<open>Error\<close> or returns the parsed
  JSON body. The remote service is a function from requests to answers (it answers the
  same request the same way during one operation); every request issued is appended to
  a log, so that the number and kind of outbound calls can be stated. An operation of
  \<open>DatabaseManager\<close> takes the log and returns its outcome (\<open>Inl\<close> for a thrown error)
  with the extended log.
\<close>

datatype error = Error string

datatype request =
    GetCompanies
  | GetHistoricalPrices string int
  | GetShareholderPositions

record response =
  r_data :: "company list field"
  r_historicalData :: "price list field"
  r_shareholderPositions :: "position list field"
  r_positions :: "position list field"

type_synonym remote = "request \<Rightarrow> error + response"

type_synonym 'a io = "request list \<Rightarrow> (error + 'a) \<times> request list"

definition io_return :: "'a \<Rightarrow> 'a io" where
  "io_return x lg = (Inr x, lg)"

definition io_throw :: "error \<Rightarrow> 'a io" where
  "io_throw e lg = (Inl e, lg)"

definition io_bind :: "'a io \<Rightarrow> ('a \<Rightarrow> 'b io) \<Rightarrow> 'b io" where
  "io_bind m f lg =
     (case m lg of
        (Inl e, lg') \<Rightarrow> (Inl e, lg')
      | (Inr x, lg') \<Rightarrow> f x lg')"

definition fetchAPI :: "remote \<Rightarrow> request \<Rightarrow> response io" where
  "fetchAPI api req lg = (api req, lg @ [req])"

text \<open>\<open>x || []\<close> for an array-valued property: an array, even an empty one, is truthy.\<close>

definition or_empty :: "'a list field \<Rightarrow> 'a list" where
  "or_empty f = (case f of Val xs \<Rightarrow> xs | _ \<Rightarrow> [])"

section \<open>Query Facade (dist/database.js)\<close>

subsection \<open>Strings\<close>

text \<open>\<open>String.prototype.toLowerCase\<close> on ASCII, and \<open>String.prototype.includes\<close>.\<close>

definition lower_char :: "char \<Rightarrow> char" where
  "lower_char c =
     (if 65 \<le> (of_char c :: nat) \<and> (of_char c :: nat) \<le> 90
      then char_of ((of_char c :: nat) + 32) else c)"

definition toLowerCase :: "string \<Rightarrow> string" where
  "toLowerCase s = map lower_char s"

fun starts_with :: "string \<Rightarrow> string \<Rightarrow> bool" where
  "starts_with s [] = True"
| "starts_with [] (p # ps) = False"
| "starts_with (c # cs) (p # ps) = (c = p \<and> starts_with cs ps)"

fun includes_str :: "string \<Rightarrow> string \<Rightarrow> bool" where
  "includes_str [] search = (search = [])"
| "includes_str (c # cs) search = (starts_with (c # cs) search \<or> includes_str cs search)"

subsection \<open>Company queries\<close>

definition getAllCompanies :: "remote \<Rightarrow> company list io" where
  "getAllCompanies api =
     io_bind (fetchAPI api GetCompanies) (\<lambda>data. io_return (or_empty (r_data data)))"

text \<open>\<open>companies.find(...) || null\<close>: \<open>None\<close> is the \<open>null\<close> result.\<close>

definition getCompanyBySymbol :: "remote \<Rightarrow> string \<Rightarrow> company option io" where
  "getCompanyBySymbol api symbol =
     io_bind (getAllCompanies api)
       (\<lambda>companies. io_return (find (\<lambda>company. c_symbol company = symbol) companies))"

definition sector_matches :: "string \<Rightarrow> company \<Rightarrow> bool" where
  "sector_matches sector company =
     (truthy_str (c_sector company) \<and>
      (case c_sector company of
         Val s \<Rightarrow> includes_str (toLowerCase s) (toLowerCase sector)
       | _ \<Rightarrow> False))"

definition getCompaniesBySector :: "remote \<Rightarrow> string \<Rightarrow> company list io" where
  "getCompaniesBySector api sector =
     io_bind (getAllCompanies api)
       (\<lambda>companies. io_return (filter (sector_matches sector) companies))"

subsection \<open>Price queries\<close>

definition getHistoricalPrices :: "remote \<Rightarrow> string \<Rightarrow> int \<Rightarrow> price list io" where
  "getHistoricalPrices api companyId days =
     io_bind (getAllCompanies api)
       (\<lambda>companies.
          case find (\<lambda>c. c_id c = companyId) companies of
            None \<Rightarrow> io_return []
          | Some company \<Rightarrow>
              io_bind (fetchAPI api (GetHistoricalPrices (c_symbol company) days))
                (\<lambda>data. io_return (or_empty (r_historicalData data))))"

subsection \<open>Unsupported operations\<close>

definition getESGScores :: "string field \<Rightarrow> unit list io" where
  "getESGScores companyId = io_return []"

definition executeCustomQuery :: "string \<Rightarrow> string list \<Rightarrow> unit list io" where
  "executeCustomQuery sql params =
     io_throw (Error ''Custom SQL queries are not supported via the Cloudflare Worker API. Please use the specific endpoints available.'')"

subsection \<open>Arrays and maps\<close>

text \<open>
  \<open>Array.prototype.join\<close>. \<open>Array.prototype.sort\<close> with the comparator
  \<open>(a, b) => key(b) - key(a)\<close> is a stable sort into non-increasing key order
  (ECMAScript 2019): \<open>sort_desc\<close> inserts each element before the first one whose key
  is not larger.
\<close>

fun join :: "string \<Rightarrow> string list \<Rightarrow> string" where
  "join sep [] = []"
| "join sep [x] = x"
| "join sep (x # y # ys) = x @ sep @ join sep (y # ys)"

fun insert_desc :: "('a \<Rightarrow> 'k::linorder) \<Rightarrow> 'a \<Rightarrow> 'a list \<Rightarrow> 'a list" where
  "insert_desc key x [] = [x]"
| "insert_desc key x (y # ys) =
     (if key y \<le> key x then x # y # ys else y # insert_desc key x ys)"

definition sort_desc :: "('a \<Rightarrow> 'k::linorder) \<Rightarrow> 'a list \<Rightarrow> 'a list" where
  "sort_desc key xs = foldr (insert_desc key) xs []"

text \<open>
  A JavaScript \<open>Map\<close> from keys to arrays, as an association list in insertion order.
  \<open>map_push k v m\<close> is \<open>if (!m.has(k)) m.set(k, []); m.get(k).push(v)\<close>, and
  \<open>group_by\<close> is the \<open>forEach\<close> loop that files every element under its key.
\<close>

fun map_push :: "'k \<Rightarrow> 'v \<Rightarrow> ('k \<times> 'v list) list \<Rightarrow> ('k \<times> 'v list) list" where
  "map_push k v [] = [(k, [v])]"
| "map_push k v ((k', vs) # m) =
     (if k' = k then (k', vs @ [v]) # m else (k', vs) # map_push k v m)"

definition group_by :: "('v \<Rightarrow> 'k) \<Rightarrow> 'v list \<Rightarrow> ('k \<times> 'v list) list" where
  "group_by key xs = fold (\<lambda>x m. map_push (key x) x m) xs []"

subsection \<open>Director queries\<close>

record tagged_director =
  td_name :: string
  td_position :: string
  td_company_name :: string
  td_company_symbol :: "string field"

record interlock =
  il_director_name :: string
  il_companies :: string
  il_board_count :: nat
  il_positions :: string

definition tag_director :: "company \<Rightarrow> director \<Rightarrow> tagged_director" where
  "tag_director company director =
     \<lparr>td_name = d_name director, td_position = d_position director,
      td_company_name = c_name company, td_company_symbol = c_ticker company\<rparr>"

definition all_directors :: "company list \<Rightarrow> tagged_director list" where
  "all_directors companies =
     concat (map (\<lambda>company.
        case c_directors company of
          Val directors \<Rightarrow> map (tag_director company) directors
        | _ \<Rightarrow> []) companies)"

definition make_interlock :: "string \<times> tagged_director list \<Rightarrow> interlock" where
  "make_interlock entry =
     (case entry of (name, directorList) \<Rightarrow>
        \<lparr>il_director_name = name,
         il_companies = join '', '' (map td_company_name directorList),
         il_board_count = length directorList,
         il_positions = join ''; ''
           (map (\<lambda>d. td_company_name d @ '' ('' @ td_position d @ '')'') directorList)\<rparr>)"

definition board_interlocks :: "company list \<Rightarrow> interlock list" where
  "board_interlocks companies =
     (let allDirectors = all_directors companies;
          directorMap = group_by td_name allDirectors;
          interlocks = map make_interlock
                         (filter (\<lambda>entry. length (snd entry) > 1) directorMap)
      in sort_desc il_board_count interlocks)"

definition getBoardInterlocks :: "remote \<Rightarrow> interlock list io" where
  "getBoardInterlocks api =
     io_bind (getAllCompanies api) (\<lambda>companies. io_return (board_interlocks companies))"

subsection \<open>Shareholder queries\<close>

record overlap =
  ov_shareholder_name :: string
  ov_companies :: string
  ov_company_count :: nat
  ov_avg_percentage :: real

text \<open>\<open>a || b\<close> on string properties, \<open>x || 0\<close> on a number, \<open>a || b\<close> on arrays.\<close>

definition or_str :: "string field \<Rightarrow> string field \<Rightarrow> string field" where
  "or_str a b = (if truthy_str a then a else b)"

definition str_of :: "string field \<Rightarrow> string" where
  "str_of f = (case f of Val s \<Rightarrow> s | _ \<Rightarrow> [])"

definition or_zero :: "real field \<Rightarrow> real" where
  "or_zero f = (case f of Val x \<Rightarrow> x | _ \<Rightarrow> 0)"

definition or_arr :: "'a list field \<Rightarrow> 'a list field \<Rightarrow> 'a list field" where
  "or_arr a b = (case a of Val xs \<Rightarrow> a | _ \<Rightarrow> b)"

definition overlap_step ::
  "position \<Rightarrow> (string \<times> position list) list \<Rightarrow> (string \<times> position list) list" where
  "overlap_step position shareholderMap =
     (let name = or_str (p_shareholder_name position) (p_name position)
      in if \<not> truthy_str name then shareholderMap
         else map_push (str_of name) position shareholderMap)"

definition make_overlap :: "string \<times> position list \<Rightarrow> overlap" where
  "make_overlap entry =
     (case entry of (name, positions) \<Rightarrow>
        (let companies = filter truthy_str
                           (map (\<lambda>p. or_str (p_company_symbol p) (p_ticker p)) positions);
             avgPercentage = foldl (\<lambda>sum p. sum + or_zero (p_percentage p)) 0 positions
                               / real (length positions)
         in \<lparr>ov_shareholder_name = name,
             ov_companies = join '','' (map str_of companies),
             ov_company_count = length companies,
             ov_avg_percentage = avgPercentage\<rparr>))"

definition shareholder_overlap :: "position list \<Rightarrow> overlap list" where
  "shareholder_overlap shareholders =
     (let shareholderMap = fold overlap_step shareholders [];
          overlaps = map make_overlap
                       (filter (\<lambda>entry. length (snd entry) > 1) shareholderMap)
      in sort_desc ov_company_count overlaps)"

definition shareholder_positions :: "response \<Rightarrow> position list" where
  "shareholder_positions data =
     or_empty (or_arr (r_shareholderPositions data) (r_positions data))"

definition getShareholderOverlap :: "remote \<Rightarrow> overlap list io" where
  "getShareholderOverlap api =
     io_bind (fetchAPI api GetShareholderPositions)
       (\<lambda>data. io_return (shareholder_overlap (shareholder_positions data)))"

subsection \<open>Top performers\<close>

record performance =
  pf_symbol :: string
  pf_name :: string
  pf_sector :: "string field"
  pf_current_price :: real
  pf_period_change :: real

text \<open>
  \<open>xs.slice(0, end)\<close> for an integral \<open>end\<close>: a negative \<open>end\<close> counts from the end of
  the array.
\<close>

definition slice_to :: "'a list \<Rightarrow> int \<Rightarrow> 'a list" where
  "slice_to xs e =
     (if e < 0 then take (nat (int (length xs) + e)) xs else take (nat e) xs)"

definition make_performance :: "company \<Rightarrow> price list \<Rightarrow> performance" where
  "make_performance company historical =
     (let recent = historical ! 0;
          old = historical ! (length historical - 1);
          changePercent = ((close recent - close old) / close old) * 100
      in \<lparr>pf_symbol = c_symbol company, pf_name = c_name company,
          pf_sector = c_sector company, pf_current_price = close recent,
          pf_period_change = changePercent\<rparr>)"

text \<open>
  The \<open>for\<close> loop of \<open>getTopPerformers\<close>: a failed fetch is caught and the company
  skipped; the loop itself never throws.
\<close>

fun performers_loop ::
  "remote \<Rightarrow> int \<Rightarrow> company list \<Rightarrow> performance list \<Rightarrow> performance list io" where
  "performers_loop api days [] performances lg = (Inr performances, lg)"
| "performers_loop api days (company # rest) performances lg =
     (case getHistoricalPrices api (c_id company) days lg of
        (Inl err, lg') \<Rightarrow> performers_loop api days rest performances lg'
      | (Inr historical, lg') \<Rightarrow>
          if length historical \<ge> 2
          then performers_loop api days rest
                 (performances @ [make_performance company historical]) lg'
          else performers_loop api days rest performances lg')"

definition getTopPerformers :: "remote \<Rightarrow> int \<Rightarrow> int \<Rightarrow> performance list io" where
  "getTopPerformers api days limit =
     io_bind (getAllCompanies api)
       (\<lambda>companies.
          io_bind (performers_loop api days (take 20 companies) [])
            (\<lambda>performances.
               io_return (slice_to (sort_desc pf_period_change performances) limit)))"

section \<open>Analytics Engine (AnalyticsManager)\<close>

subsection \<open>Double arithmetic\<close>

text \<open>
  \<open>calculateMarketConcentration\<close> computes in IEEE 754 binary64 arithmetic, and what it
  returns at the bucket boundaries depends on the rounding. A double is modelled by the
  real number it denotes, and every arithmetic operation of the code returns the exact
  result rounded to the nearest number with a 53-bit significand, a tie going to the
  even significand (\<open>fl\<close>). The exponent is not bounded: overflow to \<open>Infinity\<close>, the
  subnormal numbers and \<open>NaN\<close> are outside the model.
\<close>

definition round_even :: "real \<Rightarrow> int" where
  "round_even y =
     (let f = \<lfloor>y\<rfloor>; r = y - of_int f
      in if r < 1 / 2 then f
         else if 1 / 2 < r then f + 1
         else if even f then f else f + 1)"

definition fl :: "real \<Rightarrow> real" where
  "fl x =
     (if x = 0 then 0
      else let u = 2 powr (of_int \<lfloor>log 2 \<bar>x\<bar>\<rfloor> - 52)
           in u * of_int (round_even (x / u)))"

definition fadd :: "real \<Rightarrow> real \<Rightarrow> real" where
  "fadd x y = fl (x + y)"

definition fmul :: "real \<Rightarrow> real \<Rightarrow> real" where
  "fmul x y = fl (x * y)"

definition fdiv :: "real \<Rightarrow> real \<Rightarrow> real" where
  "fdiv x y = fl (x / y)"

subsection \<open>Sector concentration\<close>

text \<open>
  One entry of \<open>sectorPerformance\<close> as \<open>getSectorCorrelationAnalysis\<close> builds it (its sample
  of companies is left out: \<open>calculateMarketConcentration\<close> reads the totals only). The
  result's \<open>top_3_market_share\<close> is absent from the \<open>unknown\<close> result. The three
  \<open>reduce\<close> calls are folds from the left, each \<open>+\<close>, \<open>*\<close> and \<open>/\<close> of the code a
  rounded operation.
\<close>

record sector_performance =
  sp_sector :: string
  sp_company_count :: nat
  sp_total_market_cap :: real
  sp_avg_market_cap :: real
  sp_avg_pe_ratio :: "real field"

record market_concentration =
  mc_hhi_index :: int
  mc_concentration_level :: string
  mc_top_3_market_share :: "real field"

text \<open>\<open>Math.round\<close>: the nearest integer, a tie going up (it is exact on doubles).\<close>

definition js_round :: "real \<Rightarrow> int" where
  "js_round x = \<lfloor>x + 1 / 2\<rfloor>"

definition total_market_cap :: "sector_performance list \<Rightarrow> real" where
  "total_market_cap sectorPerformance =
     foldl (\<lambda>sum sector. fadd sum (sp_total_market_cap sector)) 0 sectorPerformance"

definition hhi_sum :: "real \<Rightarrow> sector_performance list \<Rightarrow> real" where
  "hhi_sum totalMarketCap sectorPerformance =
     foldl (\<lambda>sum sector.
              let share = fdiv (sp_total_market_cap sector) totalMarketCap
              in fadd sum (fmul (fmul share share) 10000)) 0 sectorPerformance"

definition calculateMarketConcentration :: "sector_performance list \<Rightarrow> market_concentration" where
  "calculateMarketConcentration sectorPerformance =
     (let totalMarketCap = total_market_cap sectorPerformance
      in if totalMarketCap = 0
         then \<lparr>mc_hhi_index = 0, mc_concentration_level = ''unknown'',
               mc_top_3_market_share = Undefined\<rparr>
         else
           let hhi = hhi_sum totalMarketCap sectorPerformance;
               concentrationLevel =
                 (if hhi > 2500 then ''highly_concentrated''
                  else if hhi > 1500 then ''moderately_concentrated''
                  else ''competitive'')
           in \<lparr>mc_hhi_index = js_round hhi,
               mc_concentration_level = concentrationLevel,
               mc_top_3_market_share =
                 Val (fmul (foldl (\<lambda>sum sector.
                                     fadd sum (fdiv (sp_total_market_cap sector) totalMarketCap))
                              0 (take 3 sectorPerformance)) 100)\<rparr>)"

subsection \<open>Opportunity scoring\<close>

record opportunity =
  op_company :: company
  op_symbol :: string
  op_name :: string
  op_sector :: "string field"
  op_score :: real
  op_market_cap :: "real field"
  op_pe_ratio :: "real field"

text \<open>
  \<open>a || b\<close> on numbers, and the comparisons \<open>x > c\<close> and \<open>x < c\<close> of a property with a
  number: \<open>undefined\<close> converts to \<open>NaN\<close> (every comparison is false), \<open>null\<close> to \<open>0\<close>.
\<close>

definition or_num :: "real field \<Rightarrow> real field \<Rightarrow> real field" where
  "or_num a b = (if truthy_num a then a else b)"

definition num_gt :: "real field \<Rightarrow> real \<Rightarrow> bool" where
  "num_gt f c = (case f of Val x \<Rightarrow> x > c | Null \<Rightarrow> 0 > c | Undefined \<Rightarrow> False)"

definition num_lt :: "real field \<Rightarrow> real \<Rightarrow> bool" where
  "num_lt f c = (case f of Val x \<Rightarrow> x < c | Null \<Rightarrow> 0 < c | Undefined \<Rightarrow> False)"

definition score_company :: "company \<Rightarrow> opportunity" where
  "score_company company =
     (let score0 = 5;
          pe = or_num (c_price_to_earnings company) (c_pe_ratio company);
          score1 = (if truthy_num pe \<and> num_lt pe 15 then score0 + 1 else score0);
          score2 = (if truthy_num pe \<and> num_gt pe 25 then score1 - 5 / 10 else score1);
          score3 = (if num_gt (c_market_cap company) 10000000000
                    then score2 + 5 / 10 else score2);
          score4 = (if num_lt (c_market_cap company) 1000000000
                    then score3 - 3 / 10 else score3);
          score5 = (if truthy_str (c_sector company) \<and>
                       toLowerCase (str_of (c_sector company))
                         \<in> set [''banking'', ''technology'', ''healthcare'']
                    then score4 + 3 / 10 else score4)
      in \<lparr>op_company = company, op_symbol = c_symbol company, op_name = c_name company,
          op_sector = c_sector company, op_score = max 0 (min 10 score5),
          op_market_cap = c_market_cap company, op_pe_ratio = pe\<rparr>)"

definition scoreOpportunities :: "company list \<Rightarrow> 'c \<Rightarrow> opportunity list" where
  "scoreOpportunities companies criteria = sort_desc op_score (map score_company companies)"

subsection \<open>Natural-language query routing\<close>

text \<open>
  The regular expressions of \<open>analyzeNaturalQuery\<close> are sequences of three kinds of
  item: the word boundary, the greedy any-characters item, and a group of literal
  alternatives. \<open>rx_match\<close> is the backtracking matcher at one position (\<open>prev\<close> is the
  character before it): alternatives are tried in order, the any-characters item tries
  the longest run first, and the result is the matched text. \<open>rx_search\<close> tries the
  positions from left to right, so \<open>str_match s re\<close> is \<open>match[0]\<close> of \<open>s.match(re)\<close>, or
  \<open>None\<close> for \<open>null\<close>. The flag \<open>i\<close> of the company patterns changes nothing: they are
  lower-case and are applied to the lower-cased query.
\<close>

datatype rx_item = WordBoundary | AnyStar | OneOf "string list"

definition is_word_char :: "char \<Rightarrow> bool" where
  "is_word_char c =
     (let n = (of_char c :: nat)
      in (48 \<le> n \<and> n \<le> 57) \<or> (65 \<le> n \<and> n \<le> 90) \<or> n = 95 \<or> (97 \<le> n \<and> n \<le> 122))"

definition is_line_terminator :: "char \<Rightarrow> bool" where
  "is_line_terminator c = ((of_char c :: nat) = 10 \<or> (of_char c :: nat) = 13)"

definition at_boundary :: "char option \<Rightarrow> string \<Rightarrow> bool" where
  "at_boundary prev rest =
     ((case prev of None \<Rightarrow> False | Some c \<Rightarrow> is_word_char c)
      \<noteq> (case rest of [] \<Rightarrow> False | c # cs \<Rightarrow> is_word_char c))"

definition last_char :: "char option \<Rightarrow> string \<Rightarrow> char option" where
  "last_char prev consumed = (if consumed = [] then prev else Some (last consumed))"

fun first_some :: "('a \<Rightarrow> 'b option) \<Rightarrow> 'a list \<Rightarrow> 'b option" where
  "first_some f [] = None"
| "first_some f (x # xs) = (case f x of Some y \<Rightarrow> Some y | None \<Rightarrow> first_some f xs)"

fun rx_match :: "rx_item list \<Rightarrow> char option \<Rightarrow> string \<Rightarrow> string option" where
  "rx_match [] prev rest = Some []"
| "rx_match (WordBoundary # items) prev rest =
     (if at_boundary prev rest then rx_match items prev rest else None)"
| "rx_match (OneOf alts # items) prev rest =
     first_some
       (\<lambda>alt. if starts_with rest alt
              then map_option (\<lambda>m. alt @ m)
                     (rx_match items (last_char prev alt) (drop (length alt) rest))
              else None)
       alts"
| "rx_match (AnyStar # items) prev rest =
     first_some
       (\<lambda>n. map_option (\<lambda>m. take n rest @ m)
               (rx_match items (last_char prev (take n rest)) (drop n rest)))
       (rev [0 ..< Suc (length (takeWhile (\<lambda>c. \<not> is_line_terminator c) rest))])"

fun rx_search :: "rx_item list \<Rightarrow> char option \<Rightarrow> string \<Rightarrow> string option" where
  "rx_search items prev [] = rx_match items prev []"
| "rx_search items prev (c # cs) =
     (case rx_match items prev (c # cs) of
        Some m \<Rightarrow> Some m
      | None \<Rightarrow> rx_search items (Some c) cs)"

definition str_match :: "string \<Rightarrow> rx_item list \<Rightarrow> string option" where
  "str_match s re = rx_search re None s"

definition upper_char :: "char \<Rightarrow> char" where
  "upper_char c =
     (if 97 \<le> (of_char c :: nat) \<and> (of_char c :: nat) \<le> 122
      then char_of ((of_char c :: nat) - 32) else c)"

definition toUpperCase :: "string \<Rightarrow> string" where
  "toUpperCase s = map upper_char s"

definition banking_pattern :: "rx_item list" where
  "banking_pattern =
     [WordBoundary, OneOf [''bank'', ''banking'', ''financial''], WordBoundary, AnyStar,
      WordBoundary, OneOf [''grow'', ''growth'', ''performance'', ''best'', ''worst''],
      WordBoundary]"

definition risk_pattern :: "rx_item list" where
  "risk_pattern =
     [WordBoundary, OneOf [''risk'', ''risky'', ''governance'', ''red flag''], WordBoundary]"

definition comparison_pattern :: "rx_item list" where
  "comparison_pattern =
     [WordBoundary, OneOf [''compare'', ''vs'', ''versus'', ''against''], WordBoundary]"

definition companyPatterns :: "rx_item list list" where
  "companyPatterns =
     [[WordBoundary, OneOf [''santander'', ''san.mc'', ''san''], WordBoundary],
      [WordBoundary, OneOf [''bbva'', ''bbva.mc''], WordBoundary],
      [WordBoundary, OneOf [''iberdrola'', ''ibe.mc'', ''ibe''], WordBoundary],
      [WordBoundary, OneOf [''telefonica'', ''tef.mc'', ''tef''], WordBoundary],
      [WordBoundary, OneOf [''inditex'', ''itx.mc'', ''itx''], WordBoundary]]"

definition sector_pattern :: "rx_item list" where
  "sector_pattern =
     [WordBoundary, OneOf [''sector'', ''industry''], AnyStar,
      WordBoundary, OneOf [''performance'', ''trend'', ''growth''], WordBoundary]"

definition sector_name_pattern :: "rx_item list" where
  "sector_name_pattern =
     [WordBoundary,
      OneOf [''banking'', ''energy'', ''telecom'', ''textile'', ''steel'', ''aviation'',
             ''infrastructure''],
      WordBoundary]"

definition price_pattern :: "rx_item list" where
  "price_pattern =
     [WordBoundary, OneOf [''price'', ''trend'', ''forecast'', ''prediction''], WordBoundary]"

text \<open>
  The operations a branch delegates to are parameters of the model, each with the
  result it assembles from them: routing decides which one runs and with which
  arguments. \<open>analysis.results\<close> is the empty object, a delegated result, the comparison
  branch's object of an error and a suggestion, or a sector result with its
  \<open>focused_sector\<close>.
\<close>

record 'r operations =
  banking_performance :: "'r io"
  governance_risks :: "'r io"
  compareCompanies :: "string list \<Rightarrow> string list \<Rightarrow> 'r io"
  getSectorCorrelationAnalysis :: "int \<Rightarrow> 'r io"
  price_trends :: "'r io"
  market_overview :: "'r io"

datatype 'r results =
    NoResults
  | Delegated 'r
  | ErrorSuggestion string string
  | Focused 'r string

record 'r analysis =
  a_original_query :: string
  a_context :: "string field"
  a_interpretation :: string
  a_suggested_actions :: "string list"
  a_results :: "'r results"
  a_execution_plan :: "string list"
  a_error :: "string field"
  a_fallback_suggestion :: "string field"

definition generateActionSuggestions :: "string \<Rightarrow> 'r results \<Rightarrow> string list" where
  \<open>generateActionSuggestions interpretation results =
     (if includes_str interpretation ''Banking''
      then [''Use get_companies_by_sector with "banking" for more details'',
            ''Try compare_companies to analyze specific banking stocks'']
      else [])
     @ (if includes_str interpretation ''risk''
        then [''Use assess_investment_risk for detailed risk analysis'',
              ''Try get_board_interlocks to analyze governance connections'']
        else [])
     @ [''Use generate_analyst_report for comprehensive analysis'',
        ''Try screen_opportunities to find investment candidates'']\<close>

text \<open>The end of the \<open>try\<close> block, and the \<open>catch\<close> block.\<close>

definition completed :: "'r analysis \<Rightarrow> 'r analysis" where
  "completed analysis =
     analysis\<lparr>a_suggested_actions :=
        generateActionSuggestions (a_interpretation analysis) (a_results analysis)\<rparr>"

definition caught :: "'r analysis \<Rightarrow> error \<Rightarrow> 'r analysis" where
  "caught analysis err =
     (case err of Error message \<Rightarrow>
        analysis\<lparr>a_error := Val (''Failed to process natural language query: Error: '' @ message),
                 a_fallback_suggestion := Val ''Try using specific tool names like get_all_companies, get_recent_news, or get_board_interlocks''\<rparr>)"

definition delegate ::
  "'r analysis \<Rightarrow> 'r io \<Rightarrow> ('r \<Rightarrow> 'r results) \<Rightarrow> request list \<Rightarrow> 'r analysis \<times> request list" where
  "delegate analysis operation wrap lg =
     (case operation lg of
        (Inl err, lg') \<Rightarrow> (caught analysis err, lg')
      | (Inr r, lg') \<Rightarrow> (completed (analysis\<lparr>a_results := wrap r\<rparr>), lg'))"

definition comparison_suggestion :: string where
  \<open>comparison_suggestion =
     ''Try: "Compare Santander vs BBVA" or use company symbols like SAN.MC vs BBVA.MC''\<close>

definition extract_companies :: "string \<Rightarrow> string list" where
  "extract_companies lowerQuery =
     List.map_filter (\<lambda>pattern. map_option toUpperCase (str_match lowerQuery pattern))
       companyPatterns"

definition analyzeNaturalQuery ::
  "'r operations \<Rightarrow> string \<Rightarrow> string field \<Rightarrow> request list \<Rightarrow> 'r analysis \<times> request list" where
  "analyzeNaturalQuery ops query context lg =
     (let lowerQuery = toLowerCase query;
          analysis = \<lparr>a_original_query = query, a_context = context, a_interpretation = [],
                      a_suggested_actions = [], a_results = NoResults, a_execution_plan = [],
                      a_error = Undefined, a_fallback_suggestion = Undefined\<rparr>
      in if str_match lowerQuery banking_pattern \<noteq> None then
           delegate
             (analysis\<lparr>a_interpretation := ''Banking sector performance analysis'',
                       a_execution_plan := [''Get banking sector companies'',
                         ''Analyze recent performance'', ''Rank by growth'']\<rparr>)
             (banking_performance ops) Delegated lg
         else if str_match lowerQuery risk_pattern \<noteq> None then
           delegate
             (analysis\<lparr>a_interpretation := ''Risk assessment analysis'',
                       a_execution_plan := [''Analyze governance risks'',
                         ''Check market risks'', ''Generate risk report'']\<rparr>)
             (governance_risks ops) Delegated lg
         else if str_match lowerQuery comparison_pattern \<noteq> None then
           (let analysis = analysis\<lparr>a_interpretation := ''Company comparison analysis''\<rparr>;
                foundCompanies = extract_companies lowerQuery
            in if length foundCompanies \<ge> 2
               then delegate analysis (compareCompanies ops foundCompanies [''all''])
                      Delegated lg
               else (completed (analysis\<lparr>a_results :=
                       ErrorSuggestion ''Could not identify companies to compare''
                         comparison_suggestion\<rparr>),
                     lg))
         else if str_match lowerQuery sector_pattern \<noteq> None then
           (let sector = (case str_match lowerQuery sector_name_pattern of
                            Some m \<Rightarrow> m | None \<Rightarrow> ''energy'')
            in delegate
                 (analysis\<lparr>a_interpretation := sector @ '' sector performance analysis''\<rparr>)
                 (getSectorCorrelationAnalysis ops 30) (\<lambda>r. Focused r sector) lg)
         else if str_match lowerQuery price_pattern \<noteq> None then
           delegate (analysis\<lparr>a_interpretation := ''Price trend analysis''\<rparr>)
             (price_trends ops) Delegated lg
         else
           delegate (analysis\<lparr>a_interpretation := ''General market overview''\<rparr>)
             (market_overview ops) Delegated lg)"

section \<open>Properties\<close>

subsection \<open>Running the gateway and the array helpers\<close>

lemma getAllCompanies_run:
  "getAllCompanies api lg =
     (case api GetCompanies of
        Inl e \<Rightarrow> (Inl e, lg @ [GetCompanies])
      | Inr data \<Rightarrow> (Inr (or_empty (r_data data)), lg @ [GetCompanies]))"
  by (simp add: getAllCompanies_def io_bind_def fetchAPI_def io_return_def split: sum.splits)

lemma set_insert_desc: "set (insert_desc key x xs) = insert x (set xs)"
  by (induction xs) auto

lemma set_sort_desc: "set (sort_desc key xs) = set xs"
  by (induction xs) (auto simp: sort_desc_def set_insert_desc)

lemma length_insert_desc: "length (insert_desc key x xs) = Suc (length xs)"
  by (induction xs) auto

lemma length_sort_desc: "length (sort_desc key xs) = length xs"
  by (induction xs) (auto simp: sort_desc_def length_insert_desc)

lemma sorted_insert_desc:
  "sorted_wrt (\<lambda>a b. key b \<le> key a) xs \<Longrightarrow>
     sorted_wrt (\<lambda>a b. key b \<le> key a) (insert_desc key x xs)"
  by (induction xs) (auto simp: set_insert_desc)

lemma sorted_sort_desc: "sorted_wrt (\<lambda>a b. key b \<le> key a) (sort_desc key xs)"
  by (induction xs) (auto simp: sort_desc_def sorted_insert_desc)

lemma map_push_keys:
  "map fst (map_push k v m) = (if k \<in> fst ` set m then map fst m else map fst m @ [k])"
  by (induction m) (force split: if_splits)+

lemma map_of_map_push:
  "map_of (map_push k v m) =
     (map_of m)(k \<mapsto> (case map_of m k of None \<Rightarrow> [v] | Some vs \<Rightarrow> vs @ [v]))"
  by (induction m) (auto simp: fun_eq_iff)

lemma group_by_snoc: "group_by key (xs @ [x]) = map_push (key x) x (group_by key xs)"
  by (simp add: group_by_def)

lemma group_by_distinct: "distinct (map fst (group_by key xs))"
proof (induction xs rule: rev_induct)
  case Nil
  show ?case by (simp add: group_by_def)
next
  case (snoc x xs)
  then show ?case by (auto simp: group_by_snoc map_push_keys)
qed

lemma map_of_group_by:
  "map_of (group_by key xs) k =
     (if k \<in> key ` set xs then Some (filter (\<lambda>x. key x = k) xs) else None)"
proof (induction xs rule: rev_induct)
  case Nil
  show ?case by (simp add: group_by_def)
next
  case (snoc x xs)
  then show ?case
    by (fastforce simp: group_by_snoc map_of_map_push filter_empty_conv image_iff)
qed

lemma group_by_entry:
  assumes "(k, vs) \<in> set (group_by key xs)"
  shows "vs = filter (\<lambda>x. key x = k) xs"
proof -
  from assms have "map_of (group_by key xs) k = Some vs"
    by (simp add: group_by_distinct)
  then show ?thesis by (simp add: map_of_group_by split: if_splits)
qed

subsection \<open>Example inputs\<close>

definition ex_company :: "string \<Rightarrow> string \<Rightarrow> string field \<Rightarrow> director list field \<Rightarrow> company" where
  "ex_company i smb sec ds =
     \<lparr>c_id = i, c_symbol = smb, c_name = smb, c_ticker = Val smb, c_sector = sec,
      c_market_cap = Undefined, c_price_to_earnings = Undefined, c_pe_ratio = Undefined,
      c_directors = ds\<rparr>"

definition ex_response :: "company list \<Rightarrow> response" where
  "ex_response cs = \<lparr>r_data = Val cs, r_historicalData = Undefined,
     r_shareholderPositions = Undefined, r_positions = Undefined\<rparr>"

definition ex_three :: "company list" where
  "ex_three =
     [ex_company ''1'' ''SAN'' (Val ''Banking'') Undefined,
      ex_company ''2'' ''IBE'' (Val ''Energy'') Undefined,
      ex_company ''3'' ''XYZ'' Undefined Undefined]"

lemma lower_examples:
  "toLowerCase ''Banking'' = ''banking''"
  "toLowerCase ''bank'' = ''bank''"
  "toLowerCase ''Energy'' = ''energy''"
  by code_simp+

subsection \<open>C8: unsupported operations\<close>

text \<open>
  C8. For every input, \<open>executeCustomQuery\<close> fails with the explicit unsupported-operation
  error and issues no request (the SQL is never executed: the log is unchanged), while
  \<open>getESGScores\<close> returns the empty list without error for every company id.
\<close>

theorem C8_unsupported_operations:
  "executeCustomQuery sql params lg =
     (Inl (Error ''Custom SQL queries are not supported via the Cloudflare Worker API. Please use the specific endpoints available.''), lg)
   \<and> getESGScores companyId lg = (Inr [], lg)"
  by (simp add: executeCustomQuery_def getESGScores_def io_throw_def io_return_def)

subsection \<open>C7: failed lookups\<close>

text \<open>
  C7. A failed lookup is a \<open>null\<close> or empty-list result, not an error: when the company
  list has been fetched, \<open>getCompanyBySymbol\<close> returns \<open>null\<close> for every symbol that no
  company bears exactly, and \<open>getHistoricalPrices\<close> returns the empty list, without
  raising and without a further request, for every id that no company bears.
\<close>

theorem C7_failed_lookups:
  assumes "getAllCompanies api lg = (Inr cs, lg')"
  shows "((\<forall>c \<in> set cs. c_symbol c \<noteq> symbol) \<longrightarrow>
            getCompanyBySymbol api symbol lg = (Inr None, lg'))
       \<and> ((\<forall>c \<in> set cs. c_id c \<noteq> companyId) \<longrightarrow>
            getHistoricalPrices api companyId days lg = (Inr [], lg'))"
proof -
  have "find (\<lambda>c. c_symbol c = symbol) cs = None" if "\<forall>c \<in> set cs. c_symbol c \<noteq> symbol"
    using that by (simp add: find_None_iff)
  moreover
  have "find (\<lambda>c. c_id c = companyId) cs = None" if "\<forall>c \<in> set cs. c_id c \<noteq> companyId"
    using that by (simp add: find_None_iff)
  ultimately show ?thesis
    using assms
    by (simp add: getCompanyBySymbol_def getHistoricalPrices_def io_bind_def io_return_def)
qed

theorem C7_witness:
  "getAllCompanies (\<lambda>r. Inr (ex_response ex_three)) [] = (Inr ex_three, [GetCompanies])
   \<and> getCompanyBySymbol (\<lambda>r. Inr (ex_response ex_three)) ''TEF'' [] = (Inr None, [GetCompanies])
   \<and> getHistoricalPrices (\<lambda>r. Inr (ex_response ex_three)) ''9'' 30 [] = (Inr [], [GetCompanies])"
  using C7_failed_lookups [of "\<lambda>r. Inr (ex_response ex_three)" "[]" ex_three "[GetCompanies]"
      "''TEF''" "''9''" 30]
  by (simp add: getAllCompanies_run ex_response_def or_empty_def ex_three_def ex_company_def)

subsection \<open>C6: companies by sector\<close>

text \<open>
  The claim's words: a company is selected when its sector, compared case-insensitively,
  contains the query as a substring; a company whose sector is missing is not.
\<close>

definition contains_substring :: "string \<Rightarrow> string \<Rightarrow> bool" where
  "contains_substring s sub = (\<exists>pre post. s = pre @ sub @ post)"

definition sector_contains_ci :: "string \<Rightarrow> company \<Rightarrow> bool" where
  "sector_contains_ci q company =
     (\<exists>s. c_sector company = Val s \<and> contains_substring (toLowerCase s) (toLowerCase q))"

lemma starts_with_iff: "starts_with s p \<longleftrightarrow> (\<exists>post. s = p @ post)"
  by (induction s p rule: starts_with.induct) auto

lemma includes_str_iff: "includes_str s sub \<longleftrightarrow> contains_substring s sub"
proof (induction s)
  case Nil
  show ?case by (auto simp: contains_substring_def)
next
  case (Cons c cs)
  have "contains_substring (c # cs) sub \<longleftrightarrow>
          (\<exists>post. c # cs = sub @ post) \<or> contains_substring cs sub"
    unfolding contains_substring_def
  proof
    assume "\<exists>pre post. c # cs = pre @ sub @ post"
    then obtain pre post where e: "c # cs = pre @ sub @ post" by blast
    show "(\<exists>post. c # cs = sub @ post) \<or> (\<exists>pre post. cs = pre @ sub @ post)"
    proof (cases pre)
      case Nil
      with e show ?thesis by auto
    next
      case (Cons a pre')
      with e have "cs = pre' @ sub @ post" by simp
      then show ?thesis by blast
    qed
  next
    assume "(\<exists>post. c # cs = sub @ post) \<or> (\<exists>pre post. cs = pre @ sub @ post)"
    then show "\<exists>pre post. c # cs = pre @ sub @ post"
    proof
      assume "\<exists>post. c # cs = sub @ post"
      then obtain post where "c # cs = [] @ sub @ post" by auto
      then show ?thesis by blast
    next
      assume "\<exists>pre post. cs = pre @ sub @ post"
      then obtain pre post where "c # cs = (c # pre) @ sub @ post" by auto
      then show ?thesis by blast
    qed
  qed
  with Cons show ?case by (simp add: starts_with_iff)
qed

lemma sector_matches_iff:
  "sector_matches q c \<longleftrightarrow> sector_contains_ci q c \<and> c_sector c \<noteq> Val []"
  by (cases "c_sector c")
     (auto simp: sector_matches_def sector_contains_ci_def truthy_str_def includes_str_iff)

text \<open>
  C6 as stated fails for the empty query: an empty sector string contains it, yet the
  code's truthiness test drops the company.
\<close>

theorem C6_counterexample:
  "getCompaniesBySector
      (\<lambda>r. Inr (ex_response [ex_company ''1'' ''SAN'' (Val []) Undefined])) [] []
     = (Inr [], [GetCompanies])
   \<and> sector_contains_ci [] (ex_company ''1'' ''SAN'' (Val []) Undefined)"
  by (simp add: getCompaniesBySector_def getAllCompanies_run io_bind_def io_return_def
      ex_response_def ex_company_def or_empty_def sector_matches_def truthy_str_def
      sector_contains_ci_def contains_substring_def toLowerCase_def)

lemma nonempty_query_sector:
  assumes "q \<noteq> []" and "sector_contains_ci q c"
  shows "c_sector c \<noteq> Val []"
proof
  assume "c_sector c = Val []"
  with assms(2) have "contains_substring [] (toLowerCase q)"
    by (simp add: sector_contains_ci_def toLowerCase_def)
  then have "toLowerCase q = []"
    by (simp add: contains_substring_def)
  with assms(1) show False by (simp add: toLowerCase_def)
qed

text \<open>
  C6 (amended). For every company list and query string \<open>q\<close>, \<open>getCompaniesBySector\<close>
  returns exactly the sublist of companies whose sector is a non-empty string that,
  compared case-insensitively, contains \<open>q\<close> as a substring; a company whose sector is
  missing (absent or \<open>null\<close>) or empty is excluded. For every non-empty query this is
  the claim as stated.
\<close>

theorem C6_sector_filter:
  assumes "getAllCompanies api lg = (Inr cs, lg')"
  shows "getCompaniesBySector api q lg =
           (Inr (filter (\<lambda>c. sector_contains_ci q c \<and> c_sector c \<noteq> Val []) cs), lg')
       \<and> (q \<noteq> [] \<longrightarrow>
            getCompaniesBySector api q lg = (Inr (filter (sector_contains_ci q) cs), lg'))"
proof -
  have general: "getCompaniesBySector api q lg =
           (Inr (filter (\<lambda>c. sector_contains_ci q c \<and> c_sector c \<noteq> Val []) cs), lg')"
    using assms
    by (simp add: getCompaniesBySector_def io_bind_def io_return_def sector_matches_iff
        cong: filter_cong)
  have "filter (\<lambda>c. sector_contains_ci q c \<and> c_sector c \<noteq> Val []) cs
          = filter (sector_contains_ci q) cs" if "q \<noteq> []"
    using nonempty_query_sector [OF that] by (auto intro: filter_cong)
  with general show ?thesis by simp
qed

theorem C6_witness:
  "getAllCompanies (\<lambda>r. Inr (ex_response ex_three)) [] = (Inr ex_three, [GetCompanies])
   \<and> getCompaniesBySector (\<lambda>r. Inr (ex_response ex_three)) ''bank'' []
     = (Inr [ex_company ''1'' ''SAN'' (Val ''Banking'') Undefined], [GetCompanies])"
  using C6_sector_filter [of "\<lambda>r. Inr (ex_response ex_three)" "[]" ex_three "[GetCompanies]"
      "''bank''"]
  by (simp add: getAllCompanies_run ex_response_def or_empty_def sector_matches_iff [symmetric]
        sector_matches_def truthy_str_def ex_three_def ex_company_def lower_examples)

subsection \<open>C1: board interlocks\<close>

text \<open>
  The claim's words: the number of distinct companies at which a director name appears
  is the number of entries of the company list whose director list holds the name. The
  code counts something else: the director entries bearing the name.
\<close>

definition director_entries :: "string \<Rightarrow> company list \<Rightarrow> nat" where
  "director_entries n cs =
     length (filter (\<lambda>d. d_name d = n) (concat (map (\<lambda>c. or_empty (c_directors c)) cs)))"

definition companies_with_director :: "string \<Rightarrow> company list \<Rightarrow> nat" where
  "companies_with_director n cs =
     length (filter (\<lambda>c. list_ex (\<lambda>d. d_name d = n) (or_empty (c_directors c))) cs)"

definition no_repeated_director :: "company list \<Rightarrow> bool" where
  "no_repeated_director cs =
     (\<forall>c \<in> set cs. distinct (map d_name (or_empty (c_directors c))))"

lemma all_directors_count:
  "length (filter (\<lambda>d. td_name d = n) (all_directors cs)) = director_entries n cs"
proof (induction cs)
  case Nil
  show ?case by (simp add: all_directors_def director_entries_def)
next
  case (Cons c cs)
  have "length (filter (\<lambda>d. td_name d = n) (map (tag_director c) ds))
          = length (filter (\<lambda>d. d_name d = n) ds)" for ds
    by (induction ds) (auto simp: tag_director_def)
  with Cons show ?case
    by (cases "c_directors c") (auto simp: all_directors_def director_entries_def or_empty_def)
qed

lemma distinct_count:
  "distinct (map f xs) \<Longrightarrow>
     length (filter (\<lambda>x. f x = n) xs) = (if list_ex (\<lambda>x. f x = n) xs then 1 else 0)"
proof (induction xs)
  case Nil
  show ?case by simp
next
  case (Cons a xs)
  then have IH: "length (filter (\<lambda>x. f x = n) xs) = (if list_ex (\<lambda>x. f x = n) xs then 1 else 0)"
    and fresh: "f a \<notin> f ` set xs"
    by auto
  show ?case
  proof (cases "f a = n")
    case True
    have "\<not> list_ex (\<lambda>x. f x = n) xs"
    proof
      assume "list_ex (\<lambda>x. f x = n) xs"
      then obtain x where x: "x \<in> set xs" and fx: "f x = n"
        by (auto simp: list_ex_iff)
      from x have "f x \<in> f ` set xs" by (rule imageI)
      with fx True have "f a \<in> f ` set xs" by simp
      with fresh show False by contradiction
    qed
    with IH True show ?thesis by simp
  next
    case False
    with IH show ?thesis by simp
  qed
qed

lemma director_entries_distinct:
  "no_repeated_director cs \<Longrightarrow> director_entries n cs = companies_with_director n cs"
  by (induction cs)
     (auto simp: no_repeated_director_def director_entries_def companies_with_director_def
        distinct_count)

lemma board_interlocks_member:
  assumes "il \<in> set (board_interlocks cs)"
  shows "2 \<le> il_board_count il \<and>
         il_board_count il = director_entries (il_director_name il) cs"
proof -
  from assms obtain k vs where
    e: "(k, vs) \<in> set (group_by td_name (all_directors cs))" and
    l: "1 < length vs" and il: "il = make_interlock (k, vs)"
    by (auto simp: board_interlocks_def Let_def set_sort_desc)
  from e have "vs = filter (\<lambda>d. td_name d = k) (all_directors cs)"
    by (rule group_by_entry)
  then have "length vs = director_entries k cs"
    by (simp add: all_directors_count)
  with l il show ?thesis by (simp add: make_interlock_def)
qed

lemma board_interlocks_sorted:
  "sorted_wrt (\<lambda>a b. il_board_count b \<le> il_board_count a) (board_interlocks cs)"
  by (simp add: board_interlocks_def Let_def sorted_sort_desc)

definition ex_chair_and_ceo :: "company list" where
  "ex_chair_and_ceo =
     [ex_company ''1'' ''SAN'' (Val ''Banking'')
        (Val [\<lparr>d_name = ''Ana'', d_position = ''Chair''\<rparr>,
              \<lparr>d_name = ''Ana'', d_position = ''CEO''\<rparr>])]"

definition ex_boards :: "company list" where
  "ex_boards =
     [ex_company ''1'' ''SAN'' (Val ''Banking'')
        (Val [\<lparr>d_name = ''Ana'', d_position = ''Chair''\<rparr>,
              \<lparr>d_name = ''Luis'', d_position = ''Member''\<rparr>]),
      ex_company ''2'' ''IBE'' (Val ''Energy'')
        (Val [\<lparr>d_name = ''Ana'', d_position = ''Member''\<rparr>]),
      ex_company ''3'' ''XYZ'' Undefined Undefined]"

text \<open>
  C1 as stated fails when one company lists the same name twice: the record has
  \<open>board_count = 2\<close> although the name appears at one company.
\<close>

theorem C1_counterexample:
  "getBoardInterlocks (\<lambda>r. Inr (ex_response ex_chair_and_ceo)) []
     = (Inr [\<lparr>il_director_name = ''Ana'', il_companies = ''SAN, SAN'', il_board_count = 2,
              il_positions = ''SAN (Chair); SAN (CEO)''\<rparr>], [GetCompanies])
   \<and> companies_with_director ''Ana'' ex_chair_and_ceo = 1"
  by (simp add: getBoardInterlocks_def getAllCompanies_run io_bind_def io_return_def
      ex_response_def or_empty_def ex_chair_and_ceo_def ex_company_def board_interlocks_def
      all_directors_def tag_director_def group_by_def make_interlock_def sort_desc_def
      companies_with_director_def)

text \<open>
  C1 (amended). For every company list, every Interlock record emitted by
  \<open>getBoardInterlocks\<close> has \<open>board_count \<ge> 2\<close>; its \<open>board_count\<close> equals the number of
  director entries bearing that name in the companies' director lists, which is the
  number of companies at which the name appears whenever no company lists a name twice;
  and the output is sorted non-increasing by \<open>board_count\<close>.
\<close>

theorem C1_board_interlocks:
  assumes "getAllCompanies api lg = (Inr cs, lg')"
  shows "\<exists>ils. getBoardInterlocks api lg = (Inr ils, lg')
       \<and> (\<forall>il \<in> set ils.
            2 \<le> il_board_count il
          \<and> il_board_count il = director_entries (il_director_name il) cs
          \<and> (no_repeated_director cs \<longrightarrow>
               il_board_count il = companies_with_director (il_director_name il) cs))
       \<and> sorted_wrt (\<lambda>a b. il_board_count b \<le> il_board_count a) ils"
proof -
  have run: "getBoardInterlocks api lg = (Inr (board_interlocks cs), lg')"
    using assms by (simp add: getBoardInterlocks_def io_bind_def io_return_def)
  have each: "2 \<le> il_board_count il
          \<and> il_board_count il = director_entries (il_director_name il) cs
          \<and> (no_repeated_director cs \<longrightarrow>
               il_board_count il = companies_with_director (il_director_name il) cs)"
    if "il \<in> set (board_interlocks cs)" for il
    using board_interlocks_member [OF that] by (simp add: director_entries_distinct)
  from run each board_interlocks_sorted [of cs] show ?thesis by blast
qed

theorem C1_witness:
  "getAllCompanies (\<lambda>r. Inr (ex_response ex_boards)) [] = (Inr ex_boards, [GetCompanies])
   \<and> getBoardInterlocks (\<lambda>r. Inr (ex_response ex_boards)) []
     = (Inr [\<lparr>il_director_name = ''Ana'', il_companies = ''SAN, IBE'', il_board_count = 2,
              il_positions = ''SAN (Chair); IBE (Member)''\<rparr>], [GetCompanies])
   \<and> director_entries ''Ana'' ex_boards = 2
   \<and> no_repeated_director ex_boards
   \<and> companies_with_director ''Ana'' ex_boards = 2"
proof -
  have fetched:
    "getAllCompanies (\<lambda>r. Inr (ex_response ex_boards)) [] = (Inr ex_boards, [GetCompanies])"
    by (simp add: getAllCompanies_run ex_response_def or_empty_def)
  have run: "getBoardInterlocks (\<lambda>r. Inr (ex_response ex_boards)) []
     = (Inr (board_interlocks ex_boards), [GetCompanies])"
    by (simp add: getBoardInterlocks_def fetched io_bind_def io_return_def)
  have "board_interlocks ex_boards
     = [\<lparr>il_director_name = ''Ana'', il_companies = ''SAN, IBE'', il_board_count = 2,
              il_positions = ''SAN (Chair); IBE (Member)''\<rparr>]"
    by (simp add: ex_boards_def ex_company_def board_interlocks_def
        all_directors_def tag_director_def group_by_def make_interlock_def sort_desc_def)
  with run have emitted: "getBoardInterlocks (\<lambda>r. Inr (ex_response ex_boards)) []
     = (Inr [\<lparr>il_director_name = ''Ana'', il_companies = ''SAN, IBE'', il_board_count = 2,
              il_positions = ''SAN (Chair); IBE (Member)''\<rparr>], [GetCompanies])"
    by simp
  have norep: "no_repeated_director ex_boards"
    by (simp add: no_repeated_director_def ex_boards_def ex_company_def or_empty_def)
  from C1_board_interlocks [OF fetched] emitted norep
  have "director_entries ''Ana'' ex_boards = 2 \<and> companies_with_director ''Ana'' ex_boards = 2"
    by auto
  with fetched emitted norep show ?thesis by simp
qed

subsection \<open>C10: shareholder overlap\<close>

text \<open>
  The claim's words. A position lacks both name fields when neither \<open>shareholder_name\<close>
  nor \<open>name\<close> holds a value; it bears the name \<open>n\<close> when \<open>n\<close> is its
  \<open>shareholder_name\<close> or, failing that, its \<open>name\<close>; it carries a symbol field when
  \<open>company_symbol\<close> or \<open>ticker\<close> holds a value. The code counts the positions whose
  symbol is truthy, that is, non-empty (\<open>carries_symbol\<close>).
\<close>

definition has_field :: "'a field \<Rightarrow> bool" where
  "has_field f = (case f of Val x \<Rightarrow> True | _ \<Rightarrow> False)"

definition lacks_name_fields :: "position \<Rightarrow> bool" where
  "lacks_name_fields p = (\<not> has_field (p_shareholder_name p) \<and> \<not> has_field (p_name p))"

definition position_bears :: "string \<Rightarrow> position \<Rightarrow> bool" where
  "position_bears n p = (n \<noteq> [] \<and> or_str (p_shareholder_name p) (p_name p) = Val n)"

definition carries_symbol_field :: "position \<Rightarrow> bool" where
  "carries_symbol_field p = (has_field (p_company_symbol p) \<or> has_field (p_ticker p))"

definition carries_symbol :: "position \<Rightarrow> bool" where
  "carries_symbol p = (truthy_str (p_company_symbol p) \<or> truthy_str (p_ticker p))"

definition named :: "position \<Rightarrow> bool" where
  "named p = truthy_str (or_str (p_shareholder_name p) (p_name p))"

definition name_key :: "position \<Rightarrow> string" where
  "name_key p = str_of (or_str (p_shareholder_name p) (p_name p))"

lemma fold_overlap_step:
  "fold overlap_step ps m = fold (\<lambda>x m. map_push (name_key x) x m) (filter named ps) m"
  by (induction ps arbitrary: m) (auto simp: overlap_step_def named_def name_key_def Let_def)

lemma shareholder_map_group: "fold overlap_step ps [] = group_by name_key (filter named ps)"
  by (simp add: fold_overlap_step group_by_def)

lemma named_key_bears: "named p \<and> name_key p = k \<longleftrightarrow> position_bears k p"
  by (cases "or_str (p_shareholder_name p) (p_name p)")
     (auto simp: named_def name_key_def position_bears_def truthy_str_def str_of_def)

lemma named_not_lacking: "named p \<Longrightarrow> \<not> lacks_name_fields p"
  by (cases "p_shareholder_name p"; cases "p_name p")
     (auto simp: named_def lacks_name_fields_def has_field_def or_str_def truthy_str_def)

lemma skip_nameless:
  "shareholder_overlap (filter (\<lambda>p. \<not> lacks_name_fields p) ps) = shareholder_overlap ps"
proof -
  have "filter named (filter (\<lambda>p. \<not> lacks_name_fields p) ps) = filter named ps"
    by (induction ps) (auto dest: named_not_lacking)
  then show ?thesis
    by (simp add: shareholder_overlap_def shareholder_map_group)
qed

lemma truthy_or_str: "truthy_str (or_str a b) \<longleftrightarrow> truthy_str a \<or> truthy_str b"
  by (simp add: or_str_def)

lemma overlap_member:
  assumes "ov \<in> set (shareholder_overlap ps)"
  shows "2 \<le> length (filter (position_bears (ov_shareholder_name ov)) ps)
       \<and> ov_company_count ov =
           length (filter carries_symbol (filter (position_bears (ov_shareholder_name ov)) ps))"
proof -
  from assms obtain k vs where
    e: "(k, vs) \<in> set (group_by name_key (filter named ps))" and
    l: "1 < length vs" and ov: "ov = make_overlap (k, vs)"
    by (auto simp: shareholder_overlap_def shareholder_map_group Let_def set_sort_desc)
  from e have "vs = filter (\<lambda>p. name_key p = k) (filter named ps)"
    by (rule group_by_entry)
  then have vs: "vs = filter (position_bears k) ps"
    by (simp add: named_key_bears conj_commute)
  from l ov vs show ?thesis
    by (simp add: make_overlap_def Let_def carries_symbol_def truthy_or_str)
qed


definition ex_position :: "string field \<Rightarrow> string field \<Rightarrow> real field \<Rightarrow> position" where
  "ex_position nm smb pct =
     \<lparr>p_shareholder_name = nm, p_name = Undefined, p_company_symbol = smb,
      p_ticker = Undefined, p_percentage = pct\<rparr>"

definition ex_positions_response :: "position list \<Rightarrow> response" where
  "ex_positions_response ps = \<lparr>r_data = Undefined, r_historicalData = Undefined,
     r_shareholderPositions = Val ps, r_positions = Undefined\<rparr>"

definition ex_empty_symbol :: "position list" where
  "ex_empty_symbol =
     [ex_position (Val ''Fund'') (Val []) (Val 5),
      ex_position (Val ''Fund'') (Val ''SAN'') (Val 3)]"

definition ex_holdings :: "position list" where
  "ex_holdings =
     [ex_position (Val ''Fund'') (Val ''SAN'') (Val 5),
      ex_position Undefined (Val ''TEF'') (Val 9),
      ex_position (Val ''Fund'') (Val ''BBVA'') (Val 3),
      ex_position (Val ''Solo'') (Val ''IBE'') (Val 1)]"

definition ex_no_symbols :: "position list" where
  "ex_no_symbols =
     [ex_position (Val ''Fund'') Undefined Undefined,
      ex_position (Val ''Fund'') Undefined Undefined]"

lemma no_symbols_overlap:
  "shareholder_overlap ex_no_symbols =
     [\<lparr>ov_shareholder_name = ''Fund'', ov_companies = [], ov_company_count = 0,
       ov_avg_percentage = 0\<rparr>]"
  by (simp add: shareholder_overlap_def ex_no_symbols_def ex_position_def overlap_step_def
      or_str_def truthy_str_def str_of_def make_overlap_def or_zero_def sort_desc_def Let_def)

text \<open>
  C10 as stated fails when a grouped position carries an empty \<open>company_symbol\<close>: it
  holds a value, yet \<open>filter(Boolean)\<close> drops it from the count.
\<close>

theorem C10_counterexample:
  "getShareholderOverlap (\<lambda>r. Inr (ex_positions_response ex_empty_symbol)) []
     = (Inr [\<lparr>ov_shareholder_name = ''Fund'', ov_companies = ''SAN'', ov_company_count = 1,
              ov_avg_percentage = 4\<rparr>], [GetShareholderPositions])
   \<and> length (filter carries_symbol_field
         (filter (position_bears ''Fund'') ex_empty_symbol)) = 2"
  by (simp add: getShareholderOverlap_def io_bind_def fetchAPI_def io_return_def
      shareholder_positions_def ex_positions_response_def or_arr_def or_empty_def
      shareholder_overlap_def ex_empty_symbol_def ex_position_def overlap_step_def
      or_str_def truthy_str_def str_of_def make_overlap_def or_zero_def sort_desc_def Let_def
      carries_symbol_field_def has_field_def position_bears_def)

lemma no_empty_symbol_field:
  assumes "p_company_symbol p \<noteq> Val []" and "p_ticker p \<noteq> Val []"
  shows "carries_symbol p \<longleftrightarrow> carries_symbol_field p"
  using assms
  by (cases "p_company_symbol p"; cases "p_ticker p")
     (auto simp: carries_symbol_def carries_symbol_field_def truthy_str_def has_field_def)

text \<open>
  C10 (amended). For every list of shareholder positions, \<open>getShareholderOverlap\<close> skips
  the positions that have neither a \<open>shareholder_name\<close> nor a \<open>name\<close> field; every
  emitted overlap record corresponds to a name borne by at least two positions, and its
  \<open>company_count\<close> equals the number of those grouped positions that carry a non-empty
  \<open>company_symbol\<close> or \<open>ticker\<close> value (when no symbol field is the empty string,
  that is the number of those that carry a symbol field, as the claim states); so for
  some inputs (positions lacking both symbol fields) an emitted record has
  \<open>company_count\<close> strictly less than 2.
\<close>

theorem C10_shareholder_overlap:
  assumes "api GetShareholderPositions = Inr data"
  shows "\<exists>ovs. getShareholderOverlap api lg = (Inr ovs, lg @ [GetShareholderPositions])
       \<and> ovs = shareholder_overlap
                 (filter (\<lambda>p. \<not> lacks_name_fields p) (shareholder_positions data))
       \<and> (\<forall>ov \<in> set ovs.
            2 \<le> length (filter (position_bears (ov_shareholder_name ov))
                         (shareholder_positions data))
          \<and> ov_company_count ov =
              length (filter carries_symbol
                (filter (position_bears (ov_shareholder_name ov))
                   (shareholder_positions data)))
          \<and> ((\<forall>p \<in> set (shareholder_positions data).
                 p_company_symbol p \<noteq> Val [] \<and> p_ticker p \<noteq> Val []) \<longrightarrow>
              ov_company_count ov =
                length (filter carries_symbol_field
                  (filter (position_bears (ov_shareholder_name ov))
                     (shareholder_positions data)))))
       \<and> (\<exists>ps. \<exists>ov \<in> set (shareholder_overlap ps). ov_company_count ov < 2)"
proof -
  define ps where "ps = shareholder_positions data"
  have run: "getShareholderOverlap api lg =
      (Inr (shareholder_overlap ps), lg @ [GetShareholderPositions])"
    using assms
    by (simp add: getShareholderOverlap_def io_bind_def fetchAPI_def io_return_def ps_def)
  have some: "\<exists>ps. \<exists>ov \<in> set (shareholder_overlap ps). ov_company_count ov < 2"
  proof -
    have "\<exists>ov \<in> set (shareholder_overlap ex_no_symbols). ov_company_count ov < 2"
      by (simp add: no_symbols_overlap)
    then show ?thesis by blast
  qed
  have fields: "filter carries_symbol (filter (position_bears n) ps)
                  = filter carries_symbol_field (filter (position_bears n) ps)"
    if "\<forall>p \<in> set ps. p_company_symbol p \<noteq> Val [] \<and> p_ticker p \<noteq> Val []" for n
    using that by (auto intro!: filter_cong simp: no_empty_symbol_field)
  have each: "2 \<le> length (filter (position_bears (ov_shareholder_name ov)) ps)
          \<and> ov_company_count ov =
              length (filter carries_symbol (filter (position_bears (ov_shareholder_name ov)) ps))
          \<and> ((\<forall>p \<in> set ps. p_company_symbol p \<noteq> Val [] \<and> p_ticker p \<noteq> Val []) \<longrightarrow>
              ov_company_count ov =
                length (filter carries_symbol_field
                  (filter (position_bears (ov_shareholder_name ov)) ps)))"
    if "ov \<in> set (shareholder_overlap ps)" for ov
    using overlap_member [OF that] fields [of "ov_shareholder_name ov"] by simp
  have skip: "shareholder_overlap ps
                = shareholder_overlap (filter (\<lambda>p. \<not> lacks_name_fields p) ps)"
    by (simp add: skip_nameless)
  from run skip each some
  show ?thesis unfolding ps_def by blast
qed

theorem C10_witness:
  "getShareholderOverlap (\<lambda>r. Inr (ex_positions_response ex_holdings)) []
     = (Inr [\<lparr>ov_shareholder_name = ''Fund'', ov_companies = ''SAN,BBVA'',
              ov_company_count = 2, ov_avg_percentage = 4\<rparr>], [GetShareholderPositions])
   \<and> length (filter carries_symbol (filter (position_bears ''Fund'') ex_holdings)) = 2"
proof -
  have pos: "shareholder_positions (ex_positions_response ex_holdings) = ex_holdings"
    by (simp add: shareholder_positions_def ex_positions_response_def or_arr_def or_empty_def)
  have fetched: "(\<lambda>r. Inr (ex_positions_response ex_holdings)) GetShareholderPositions
      = Inr (ex_positions_response ex_holdings)"
    by simp
  from C10_shareholder_overlap [OF fetched, of "[]", unfolded pos append_Nil]
  obtain ovs where
    run: "getShareholderOverlap (\<lambda>r. Inr (ex_positions_response ex_holdings)) []
            = (Inr ovs, [GetShareholderPositions])" and
    skip: "ovs = shareholder_overlap (filter (\<lambda>p. \<not> lacks_name_fields p) ex_holdings)" and
    each: "\<forall>ov \<in> set ovs.
            2 \<le> length (filter (position_bears (ov_shareholder_name ov)) ex_holdings)
          \<and> ov_company_count ov =
              length (filter carries_symbol
                (filter (position_bears (ov_shareholder_name ov)) ex_holdings))"
    by blast
  have "shareholder_overlap (filter (\<lambda>p. \<not> lacks_name_fields p) ex_holdings)
     = [\<lparr>ov_shareholder_name = ''Fund'', ov_companies = ''SAN,BBVA'',
              ov_company_count = 2, ov_avg_percentage = 4\<rparr>]"
    by (simp add: shareholder_overlap_def ex_holdings_def ex_position_def overlap_step_def
      lacks_name_fields_def has_field_def
      or_str_def truthy_str_def str_of_def make_overlap_def or_zero_def sort_desc_def Let_def)
  with skip have ovs: "ovs = [\<lparr>ov_shareholder_name = ''Fund'', ov_companies = ''SAN,BBVA'',
              ov_company_count = 2, ov_avg_percentage = 4\<rparr>]"
    by simp
  with each run show ?thesis by simp
qed

subsection \<open>C9: opportunity scores\<close>

lemma score_company_range:
  "0 \<le> op_score (score_company company) \<and> op_score (score_company company) \<le> 10"
  by (simp add: score_company_def Let_def split del: if_split)

text \<open>
  C9. For every company list and screening criteria, every opportunity score produced by
  the scoring step lies in the closed interval from 0 to 10, whatever the company's P/E
  ratio, market cap or sector.
\<close>

theorem C9_score_clamped:
  "\<forall>opp \<in> set (scoreOpportunities companies criteria). 0 \<le> op_score opp \<and> op_score opp \<le> 10"
proof
  fix opp
  assume "opp \<in> set (scoreOpportunities companies criteria)"
  then obtain company where "opp = score_company company"
    by (auto simp: scoreOpportunities_def set_sort_desc)
  then show "0 \<le> op_score opp \<and> op_score opp \<le> 10"
    by (simp add: score_company_range)
qed

definition ex_scored :: "company list" where
  "ex_scored =
     [\<lparr>c_id = ''1'', c_symbol = ''SML'', c_name = ''Small'', c_ticker = Undefined,
       c_sector = Val ''Retail'', c_market_cap = Val 500000000,
       c_price_to_earnings = Undefined, c_pe_ratio = Val 40, c_directors = Undefined\<rparr>,
      \<lparr>c_id = ''2'', c_symbol = ''SAN'', c_name = ''Santander'', c_ticker = Undefined,
       c_sector = Val ''Banking'', c_market_cap = Val 60000000000,
       c_price_to_earnings = Val 8, c_pe_ratio = Undefined, c_directors = Undefined\<rparr>]"

theorem C9_witness:
  "map op_score (scoreOpportunities ex_scored ()) = [34 / 5, 21 / 5]
   \<and> 0 \<le> op_score (scoreOpportunities ex_scored () ! 0)
   \<and> op_score (scoreOpportunities ex_scored () ! 0) \<le> 10"
proof -
  have lc: "toLowerCase ''Retail'' = ''retail''" "toLowerCase ''Banking'' = ''banking''"
    by code_simp+
  have scores: "map op_score (scoreOpportunities ex_scored ()) = [34 / 5, 21 / 5]"
    by (simp add: scoreOpportunities_def ex_scored_def score_company_def Let_def or_num_def
        truthy_num_def truthy_str_def num_gt_def num_lt_def str_of_def lc sort_desc_def)
  then have "length (map op_score (scoreOpportunities ex_scored ())) = 2"
    by simp
  then have "length (scoreOpportunities ex_scored ()) = 2"
    by simp
  then have "scoreOpportunities ex_scored () ! 0 \<in> set (scoreOpportunities ex_scored ())"
    by simp
  with C9_score_clamped [of ex_scored "()"] scores show ?thesis by blast
qed


subsection \<open>C4 and C5: the concentration index\<close>


definition caps :: "sector_performance list \<Rightarrow> real list" where
  "caps sp = map sp_total_market_cap sp"

definition exact_hhi :: "sector_performance list \<Rightarrow> real" where
  "exact_hhi sp = 10000 * sum_list (map (\<lambda>c. c\<^sup>2) (caps sp)) / (sum_list (caps sp))\<^sup>2"

definition scale_caps :: "real \<Rightarrow> sector_performance list \<Rightarrow> sector_performance list" where
  "scale_caps k sp = map (\<lambda>s. s\<lparr>sp_total_market_cap := fmul (sp_total_market_cap s) k\<rparr>) sp"

definition ex_sector :: "string \<Rightarrow> real \<Rightarrow> sector_performance" where
  "ex_sector nm cap =
     \<lparr>sp_sector = nm, sp_company_count = 1, sp_total_market_cap = cap,
      sp_avg_market_cap = cap, sp_avg_pe_ratio = Null\<rparr>"

definition ex_no_caps :: "sector_performance list" where
  "ex_no_caps = [ex_sector ''A'' 0, ex_sector ''B'' 0]"

definition ex_four_equal :: "sector_performance list" where
  "ex_four_equal = [ex_sector ''A'' 7, ex_sector ''B'' 7, ex_sector ''C'' 7, ex_sector ''D'' 7]"

definition ex_ten :: "sector_performance list" where
  "ex_ten = [ex_sector ''A'' 5, ex_sector ''B'' 4, ex_sector ''C'' 3, ex_sector ''D'' 2,
             ex_sector ''E'' 1, ex_sector ''F'' 1, ex_sector ''G'' 1, ex_sector ''H'' 1,
             ex_sector ''I'' 1, ex_sector ''J'' 1]"

definition ex_near_2500 :: "sector_performance list" where
  "ex_near_2500 = [ex_sector ''A'' 51, ex_sector ''B'' 50, ex_sector ''C'' 50, ex_sector ''D'' 50]"

definition ex_seven :: "sector_performance list" where
  "ex_seven = [ex_sector ''A'' 8, ex_sector ''B'' 4, ex_sector ''C'' 4, ex_sector ''D'' 1,
               ex_sector ''E'' 1, ex_sector ''F'' 1, ex_sector ''G'' 1]"

definition ex_three_equal :: "sector_performance list" where
  "ex_three_equal = [ex_sector ''A'' 1, ex_sector ''B'' 1, ex_sector ''C'' 1]"

definition ex_uneven :: "sector_performance list" where
  "ex_uneven = [ex_sector ''A'' 13, ex_sector ''B'' 7, ex_sector ''C'' 4]"

definition ex_factor :: real where
  "ex_factor = 2476979795053773 / 2251799813685248"

subsubsection \<open>Rounding to the nearest double\<close>

lemma round_even_close: "\<bar>of_int (round_even y) - y\<bar> \<le> 1 / 2"
  unfolding round_even_def Let_def by (auto simp: abs_if) linarith+

lemma round_even_nearest:
  assumes "\<bar>y - of_int n\<bar> < 1 / 2"
  shows "round_even y = n"
proof -
  have c: "\<bar>of_int (round_even y) - y\<bar> \<le> 1 / 2" by (rule round_even_close)
  have "\<bar>of_int (round_even y) - (of_int n :: real)\<bar> < 1"
    using assms c by linarith
  hence "\<bar>of_int (round_even y - n) :: real\<bar> < 1" by simp
  hence "\<bar>round_even y - n\<bar> < 1"
    by (metis of_int_abs of_int_less_1_iff)
  thus ?thesis by linarith
qed





lemma fl_nearest:
  assumes p: "p = 2 powr (of_int e)"
    and lo: "p \<le> \<bar>x\<bar>" and hi: "\<bar>x\<bar> < 2 * p"
    and y: "y = p / 2 ^ 52 * of_int n"
    and near: "\<bar>x - y\<bar> < p / 2 ^ 53"
  shows "fl x = y"
proof -
  have p0: "0 < p" by (simp add: p)
  have x0: "x \<noteq> 0" using lo p0 by auto
  have "\<lfloor>log 2 \<bar>x\<bar>\<rfloor> = e"
  proof (rule floor_unique)
    show "of_int e \<le> log 2 \<bar>x\<bar>"
      using lo x0 by (simp add: p le_log_iff)
    have "\<bar>x\<bar> < 2 powr (of_int e + 1)"
      using hi by (simp add: p powr_add)
    thus "log 2 \<bar>x\<bar> < of_int e + 1"
      using x0 by (simp add: log_less_iff)
  qed
  hence u: "2 powr (of_int \<lfloor>log 2 \<bar>x\<bar>\<rfloor> - 52) = p / 2 ^ 52"
    by (simp add: p powr_diff powr_numeral del: power_numeral)
  define u :: real where "u = p / 2 ^ 52"
  have u0: "0 < u" using p0 by (simp add: u_def)
  have yu: "y = u * of_int n" by (simp add: y u_def)
  have "x / u - of_int n = (x - y) / u"
    using u0 by (simp add: yu diff_divide_distrib)
  hence "\<bar>x / u - of_int n\<bar> = \<bar>x - y\<bar> / u"
    using u0 by simp
  also have "\<dots> < (p / 2 ^ 53) / u"
    using near u0 by (rule divide_strict_right_mono)
  also have "\<dots> = 1 / 2" using p0 by (simp add: u_def)
  finally have r: "round_even (x / u) = n" by (rule round_even_nearest)
  have "fl x = u * of_int (round_even (x / u))"
    using x0 unfolding fl_def Let_def u u_def by simp
  thus ?thesis by (simp only: r yu)
qed

lemma fl_nearest_up:
  assumes "2 ^ k \<le> \<bar>x\<bar>" "\<bar>x\<bar> < 2 * 2 ^ k"
    and "y = 2 ^ k / 2 ^ 52 * of_int n"
    and "\<bar>x - y\<bar> < 2 ^ k / 2 ^ 53"
  shows "fl x = y"
proof (rule fl_nearest [where e = "int k" and p = "2 ^ k" and n = n])
  show "(2::real) ^ k = 2 powr real_of_int (int k)" by (simp add: powr_realpow)
qed (use assms in simp_all)

lemma fl_nearest_down:
  assumes "1 / 2 ^ k \<le> \<bar>x\<bar>" "\<bar>x\<bar> < 2 * (1 / 2 ^ k)"
    and "y = (1 / 2 ^ k) / 2 ^ 52 * of_int n"
    and "\<bar>x - y\<bar> < (1 / 2 ^ k) / 2 ^ 53"
  shows "fl x = y"
proof (rule fl_nearest [where e = "- int k" and p = "1 / 2 ^ k" and n = n])
  show "1 / (2::real) ^ k = 2 powr real_of_int (- int k)"
    by (simp add: powr_minus powr_realpow divide_inverse)
qed (use assms in simp_all)

lemma round_even_tie:
  assumes "y = of_int n + 1 / 2"
  shows "round_even y = (if even n then n else n + 1)"
proof -
  have "\<lfloor>y\<rfloor> = n" unfolding assms by (rule floor_unique) simp_all
  thus ?thesis by (simp add: round_even_def Let_def assms)
qed

lemma fl_tie:
  assumes p: "p = 2 powr (of_int e)"
    and lo: "p \<le> \<bar>x\<bar>" and hi: "\<bar>x\<bar> < 2 * p"
    and x: "x = p / 2 ^ 52 * (of_int n + 1 / 2)"
    and y: "y = p / 2 ^ 52 * of_int (if even n then n else n + 1)"
  shows "fl x = y"
proof -
  have p0: "0 < p" by (simp add: p)
  have x0: "x \<noteq> 0" using lo p0 by auto
  have "\<lfloor>log 2 \<bar>x\<bar>\<rfloor> = e"
  proof (rule floor_unique)
    show "of_int e \<le> log 2 \<bar>x\<bar>"
      using lo x0 by (simp add: p le_log_iff)
    have "\<bar>x\<bar> < 2 powr (of_int e + 1)"
      using hi by (simp add: p powr_add)
    thus "log 2 \<bar>x\<bar> < of_int e + 1"
      using x0 by (simp add: log_less_iff)
  qed
  hence u: "2 powr (of_int \<lfloor>log 2 \<bar>x\<bar>\<rfloor> - 52) = p / 2 ^ 52"
    by (simp add: p powr_diff powr_numeral del: power_numeral)
  define u :: real where "u = p / 2 ^ 52"
  have u0: "0 < u" using p0 by (simp add: u_def)
  have xu: "x = u * (of_int n + 1 / 2)" by (simp add: x u_def)
  have "x / u = of_int n + 1 / 2"
    using u0 by (simp add: xu)
  hence r: "round_even (x / u) = (if even n then n else n + 1)" by (rule round_even_tie)
  have "fl x = u * of_int (round_even (x / u))"
    using x0 unfolding fl_def Let_def u u_def by simp
  hence "fl x = u * of_int (if even n then n else n + 1)" by (simp only: r)
  thus ?thesis by (simp only: y u_def)
qed

lemma fl_tie_up:
  assumes "2 ^ k \<le> \<bar>x\<bar>" "\<bar>x\<bar> < 2 * 2 ^ k"
    and "x = 2 ^ k / 2 ^ 52 * (of_int n + 1 / 2)"
    and "y = 2 ^ k / 2 ^ 52 * of_int (if even n then n else n + 1)"
  shows "fl x = y"
proof (rule fl_tie [where e = "int k" and p = "2 ^ k" and n = n])
  show "(2::real) ^ k = 2 powr real_of_int (int k)" by (simp add: powr_realpow)
qed (use assms in simp_all)

lemma fl_tie_down:
  assumes "1 / 2 ^ k \<le> \<bar>x\<bar>" "\<bar>x\<bar> < 2 * (1 / 2 ^ k)"
    and "x = (1 / 2 ^ k) / 2 ^ 52 * (of_int n + 1 / 2)"
    and "y = (1 / 2 ^ k) / 2 ^ 52 * of_int (if even n then n else n + 1)"
  shows "fl x = y"
proof (rule fl_tie [where e = "- int k" and p = "1 / 2 ^ k" and n = n])
  show "1 / (2::real) ^ k = 2 powr real_of_int (- int k)"
    by (simp add: powr_minus powr_realpow divide_inverse)
qed (use assms in simp_all)

subsubsection \<open>Rounding error of one operation\<close>





subsubsection \<open>Rounding error of a sum of non-negative terms\<close>




subsubsection \<open>The roundings of the examples\<close>

text \<open>
  Every rounded operation that the code performs on the example inputs, with the double
  it returns: the exact result lies within half a unit in the last place of it (or
  midway between two doubles, and the one with the even significand is returned).
\<close>

lemma fl_step_1: "fadd 0 7 = 7"
  unfolding fadd_def by (rule fl_nearest_up [where k = 2 and n = 7881299347898368]) simp_all

lemma fl_step_2: "fadd 7 7 = 14"
  unfolding fadd_def by (rule fl_nearest_up [where k = 3 and n = 7881299347898368]) simp_all

lemma fl_step_3: "fadd 14 7 = 21"
  unfolding fadd_def by (rule fl_nearest_up [where k = 4 and n = 5910974510923776]) simp_all

lemma fl_step_4: "fadd 21 7 = 28"
  unfolding fadd_def by (rule fl_nearest_up [where k = 4 and n = 7881299347898368]) simp_all

lemma fl_step_5: "fdiv 7 28 = 1 / 4"
  unfolding fdiv_def by (rule fl_nearest_down [where k = 2 and n = 4503599627370496]) simp_all

lemma fl_step_6: "fmul (1 / 4) (1 / 4) = 1 / 16"
  unfolding fmul_def by (rule fl_nearest_down [where k = 4 and n = 4503599627370496]) simp_all

lemma fl_step_7: "fmul (1 / 16) 10000 = 625"
  unfolding fmul_def by (rule fl_nearest_up [where k = 9 and n = 5497558138880000]) simp_all

lemma fl_step_8: "fadd 0 625 = 625"
  unfolding fadd_def by (rule fl_nearest_up [where k = 9 and n = 5497558138880000]) simp_all

lemma fl_step_9: "fadd 625 625 = 1250"
  unfolding fadd_def by (rule fl_nearest_up [where k = 10 and n = 5497558138880000]) simp_all

lemma fl_step_10: "fadd 1250 625 = 1875"
  unfolding fadd_def by (rule fl_nearest_up [where k = 10 and n = 8246337208320000]) simp_all

lemma fl_step_11: "fadd 1875 625 = 2500"
  unfolding fadd_def by (rule fl_nearest_up [where k = 11 and n = 5497558138880000]) simp_all

lemma fl_step_12: "fadd 0 5 = 5"
  unfolding fadd_def by (rule fl_nearest_up [where k = 2 and n = 5629499534213120]) simp_all

lemma fl_step_13: "fadd 5 4 = 9"
  unfolding fadd_def by (rule fl_nearest_up [where k = 3 and n = 5066549580791808]) simp_all

lemma fl_step_14: "fadd 9 3 = 12"
  unfolding fadd_def by (rule fl_nearest_up [where k = 3 and n = 6755399441055744]) simp_all

lemma fl_step_15: "fadd 12 2 = 14"
  unfolding fadd_def by (rule fl_nearest_up [where k = 3 and n = 7881299347898368]) simp_all

lemma fl_step_16: "fadd 14 1 = 15"
  unfolding fadd_def by (rule fl_nearest_up [where k = 3 and n = 8444249301319680]) simp_all

lemma fl_step_17: "fadd 15 1 = 16"
  unfolding fadd_def by (rule fl_nearest_up [where k = 4 and n = 4503599627370496]) simp_all

lemma fl_step_18: "fadd 16 1 = 17"
  unfolding fadd_def by (rule fl_nearest_up [where k = 4 and n = 4785074604081152]) simp_all

lemma fl_step_19: "fadd 17 1 = 18"
  unfolding fadd_def by (rule fl_nearest_up [where k = 4 and n = 5066549580791808]) simp_all

lemma fl_step_20: "fadd 18 1 = 19"
  unfolding fadd_def by (rule fl_nearest_up [where k = 4 and n = 5348024557502464]) simp_all

lemma fl_step_21: "fadd 19 1 = 20"
  unfolding fadd_def by (rule fl_nearest_up [where k = 4 and n = 5629499534213120]) simp_all

lemma fl_step_22: "fdiv 5 20 = 1 / 4"
  unfolding fdiv_def by (rule fl_nearest_down [where k = 2 and n = 4503599627370496]) simp_all

lemma fl_step_23: "fdiv 4 20 = 3602879701896397 / 18014398509481984"
  unfolding fdiv_def by (rule fl_nearest_down [where k = 3 and n = 7205759403792794]) simp_all

lemma fl_step_24: "fmul (3602879701896397 / 18014398509481984) (3602879701896397 / 18014398509481984) = 1441151880758559 / 36028797018963968"
  unfolding fmul_def by (rule fl_nearest_down [where k = 5 and n = 5764607523034236]) simp_all

lemma fl_step_25: "fmul (1441151880758559 / 36028797018963968) 10000 = 7036874417766401 / 17592186044416"
  unfolding fmul_def by (rule fl_nearest_up [where k = 8 and n = 7036874417766401]) simp_all

lemma fl_step_26: "fadd 625 (7036874417766401 / 17592186044416) = 1025"
  unfolding fadd_def by (rule fl_nearest_up [where k = 10 and n = 4507997673881600]) simp_all

lemma fl_step_27: "fdiv 3 20 = 5404319552844595 / 36028797018963968"
  unfolding fdiv_def by (rule fl_nearest_down [where k = 3 and n = 5404319552844595]) simp_all

lemma fl_step_28: "fmul (5404319552844595 / 36028797018963968) (5404319552844595 / 36028797018963968) = 3242591731706757 / 144115188075855872"
  unfolding fmul_def by (rule fl_nearest_down [where k = 6 and n = 6485183463413514]) simp_all

lemma fl_step_29: "fmul (3242591731706757 / 144115188075855872) 10000 = 225"
  unfolding fmul_def by (rule fl_nearest_up [where k = 7 and n = 7916483719987200]) simp_all

lemma fl_step_30: "fadd 1025 225 = 1250"
  unfolding fadd_def by (rule fl_nearest_up [where k = 10 and n = 5497558138880000]) simp_all

lemma fl_step_31: "fdiv 2 20 = 3602879701896397 / 36028797018963968"
  unfolding fdiv_def by (rule fl_nearest_down [where k = 4 and n = 7205759403792794]) simp_all

lemma fl_step_32: "fmul (3602879701896397 / 36028797018963968) (3602879701896397 / 36028797018963968) = 1441151880758559 / 144115188075855872"
  unfolding fmul_def by (rule fl_nearest_down [where k = 7 and n = 5764607523034236]) simp_all

lemma fl_step_33: "fmul (1441151880758559 / 144115188075855872) 10000 = 7036874417766401 / 70368744177664"
  unfolding fmul_def by (rule fl_nearest_up [where k = 6 and n = 7036874417766401]) simp_all

lemma fl_step_34: "fadd 1250 (7036874417766401 / 70368744177664) = 1350"
  unfolding fadd_def by (rule fl_nearest_up [where k = 10 and n = 5937362789990400]) simp_all

lemma fl_step_35: "fdiv 1 20 = 3602879701896397 / 72057594037927936"
  unfolding fdiv_def by (rule fl_nearest_down [where k = 5 and n = 7205759403792794]) simp_all

lemma fl_step_36: "fmul (3602879701896397 / 72057594037927936) (3602879701896397 / 72057594037927936) = 1441151880758559 / 576460752303423488"
  unfolding fmul_def by (rule fl_nearest_down [where k = 9 and n = 5764607523034236]) simp_all

lemma fl_step_37: "fmul (1441151880758559 / 576460752303423488) 10000 = 7036874417766401 / 281474976710656"
  unfolding fmul_def by (rule fl_nearest_up [where k = 4 and n = 7036874417766401]) simp_all

lemma fl_step_38: "fadd 1350 (7036874417766401 / 281474976710656) = 1375"
  unfolding fadd_def by (rule fl_nearest_up [where k = 10 and n = 6047313952768000]) simp_all

lemma fl_step_39: "fadd 1375 (7036874417766401 / 281474976710656) = 1400"
  unfolding fadd_def by (rule fl_nearest_up [where k = 10 and n = 6157265115545600]) simp_all

lemma fl_step_40: "fadd 1400 (7036874417766401 / 281474976710656) = 1425"
  unfolding fadd_def by (rule fl_nearest_up [where k = 10 and n = 6267216278323200]) simp_all

lemma fl_step_41: "fadd 1425 (7036874417766401 / 281474976710656) = 1450"
  unfolding fadd_def by (rule fl_nearest_up [where k = 10 and n = 6377167441100800]) simp_all

lemma fl_step_42: "fadd 1450 (7036874417766401 / 281474976710656) = 1475"
  unfolding fadd_def by (rule fl_nearest_up [where k = 10 and n = 6487118603878400]) simp_all

lemma fl_step_43: "fadd 1475 (7036874417766401 / 281474976710656) = 1500"
  unfolding fadd_def by (rule fl_nearest_up [where k = 10 and n = 6597069766656000]) simp_all

lemma fl_step_44: "fadd 0 51 = 51"
  unfolding fadd_def by (rule fl_nearest_up [where k = 5 and n = 7177611906121728]) simp_all

lemma fl_step_45: "fadd 51 50 = 101"
  unfolding fadd_def by (rule fl_nearest_up [where k = 6 and n = 7107243161944064]) simp_all

lemma fl_step_46: "fadd 101 50 = 151"
  unfolding fadd_def by (rule fl_nearest_up [where k = 7 and n = 5312840185413632]) simp_all

lemma fl_step_47: "fadd 151 50 = 201"
  unfolding fadd_def by (rule fl_nearest_up [where k = 7 and n = 7072058789855232]) simp_all

lemma fl_step_48: "fdiv 51 201 = 4570817532256623 / 18014398509481984"
  unfolding fdiv_def by (rule fl_nearest_down [where k = 2 and n = 4570817532256623]) simp_all

lemma fl_step_49: "fmul (4570817532256623 / 18014398509481984) (4570817532256623 / 18014398509481984) = 4639038689454483 / 72057594037927936"
  unfolding fmul_def by (rule fl_nearest_down [where k = 4 and n = 4639038689454483]) simp_all

lemma fl_step_50: "fmul (4639038689454483 / 72057594037927936) 10000 = 88482641018953 / 137438953472"
  unfolding fmul_def by (rule fl_nearest_up [where k = 9 and n = 5662889025212992]) simp_all

lemma fl_step_51: "fadd 0 (88482641018953 / 137438953472) = 88482641018953 / 137438953472"
  unfolding fadd_def by (rule fl_nearest_up [where k = 9 and n = 5662889025212992]) simp_all

lemma fl_step_52: "fdiv 50 201 = 8962387318150241 / 36028797018963968"
  unfolding fdiv_def by (rule fl_nearest_down [where k = 3 and n = 8962387318150241]) simp_all

lemma fl_step_53: "fmul (8962387318150241 / 36028797018963968) (8962387318150241 / 36028797018963968) = 8917798326517653 / 144115188075855872"
  unfolding fmul_def by (rule fl_nearest_down [where k = 5 and n = 8917798326517653]) simp_all

lemma fl_step_54: "fmul (8917798326517653 / 144115188075855872) 10000 = 5442992142649935 / 8796093022208"
  unfolding fmul_def by (rule fl_nearest_up [where k = 9 and n = 5442992142649935]) simp_all

lemma fl_step_55: "fadd (88482641018953 / 137438953472) (5442992142649935 / 8796093022208) = 694117572991433 / 549755813888"
  unfolding fadd_def by (rule fl_tie_up [where k = 10 and n = 5552940583931463]) simp_all

lemma fl_step_56: "fadd (694117572991433 / 549755813888) (5442992142649935 / 8796093022208) = 517152290953527 / 274877906944"
  unfolding fadd_def by (rule fl_tie_up [where k = 10 and n = 8274436655256431]) simp_all

lemma fl_step_57: "fadd (517152290953527 / 274877906944) (5442992142649935 / 8796093022208) = 1374491590822675 / 549755813888"
  unfolding fadd_def by (rule fl_nearest_up [where k = 11 and n = 5497966363290700]) simp_all

lemma fl_step_58: "fadd 0 8 = 8"
  unfolding fadd_def by (rule fl_nearest_up [where k = 3 and n = 4503599627370496]) simp_all

lemma fl_step_59: "fadd 8 4 = 12"
  unfolding fadd_def by (rule fl_nearest_up [where k = 3 and n = 6755399441055744]) simp_all

lemma fl_step_60: "fadd 12 4 = 16"
  unfolding fadd_def by (rule fl_nearest_up [where k = 4 and n = 4503599627370496]) simp_all

lemma fl_step_61: "fdiv 8 20 = 3602879701896397 / 9007199254740992"
  unfolding fdiv_def by (rule fl_nearest_down [where k = 2 and n = 7205759403792794]) simp_all

lemma fl_step_62: "fmul (3602879701896397 / 9007199254740992) (3602879701896397 / 9007199254740992) = 1441151880758559 / 9007199254740992"
  unfolding fmul_def by (rule fl_nearest_down [where k = 3 and n = 5764607523034236]) simp_all

lemma fl_step_63: "fmul (1441151880758559 / 9007199254740992) 10000 = 7036874417766401 / 4398046511104"
  unfolding fmul_def by (rule fl_nearest_up [where k = 10 and n = 7036874417766401]) simp_all

lemma fl_step_64: "fadd 0 (7036874417766401 / 4398046511104) = 7036874417766401 / 4398046511104"
  unfolding fadd_def by (rule fl_nearest_up [where k = 10 and n = 7036874417766401]) simp_all

lemma fl_step_65: "fadd (7036874417766401 / 4398046511104) (7036874417766401 / 17592186044416) = 8796093022208001 / 4398046511104"
  unfolding fadd_def by (rule fl_nearest_up [where k = 10 and n = 8796093022208001]) simp_all

lemma fl_step_66: "fadd (8796093022208001 / 4398046511104) (7036874417766401 / 17592186044416) = 5277655813324801 / 2199023255552"
  unfolding fadd_def by (rule fl_nearest_up [where k = 11 and n = 5277655813324801]) simp_all

lemma fl_step_67: "fadd (5277655813324801 / 2199023255552) (7036874417766401 / 281474976710656) = 5332631394713601 / 2199023255552"
  unfolding fadd_def by (rule fl_nearest_up [where k = 11 and n = 5332631394713601]) simp_all

lemma fl_step_68: "fadd (5332631394713601 / 2199023255552) (7036874417766401 / 281474976710656) = 5387606976102401 / 2199023255552"
  unfolding fadd_def by (rule fl_nearest_up [where k = 11 and n = 5387606976102401]) simp_all

lemma fl_step_69: "fadd (5387606976102401 / 2199023255552) (7036874417766401 / 281474976710656) = 5442582557491201 / 2199023255552"
  unfolding fadd_def by (rule fl_nearest_up [where k = 11 and n = 5442582557491201]) simp_all

lemma fl_step_70: "fadd (5442582557491201 / 2199023255552) (7036874417766401 / 281474976710656) = 5497558138880001 / 2199023255552"
  unfolding fadd_def by (rule fl_nearest_up [where k = 11 and n = 5497558138880001]) simp_all

lemma fl_step_71: "fadd 0 1 = 1"
  unfolding fadd_def by (rule fl_nearest_up [where k = 0 and n = 4503599627370496]) simp_all

lemma fl_step_72: "fadd 1 1 = 2"
  unfolding fadd_def by (rule fl_nearest_up [where k = 1 and n = 4503599627370496]) simp_all

lemma fl_step_73: "fadd 2 1 = 3"
  unfolding fadd_def by (rule fl_nearest_up [where k = 1 and n = 6755399441055744]) simp_all

lemma fl_step_74: "fdiv 1 3 = 6004799503160661 / 18014398509481984"
  unfolding fdiv_def by (rule fl_nearest_down [where k = 2 and n = 6004799503160661]) simp_all

lemma fl_step_75: "fmul (6004799503160661 / 18014398509481984) (6004799503160661 / 18014398509481984) = 2001599834386887 / 18014398509481984"
  unfolding fmul_def by (rule fl_nearest_down [where k = 4 and n = 8006399337547548]) simp_all

lemma fl_step_76: "fmul (2001599834386887 / 18014398509481984) 10000 = 4886718345671111 / 4398046511104"
  unfolding fmul_def by (rule fl_nearest_up [where k = 10 and n = 4886718345671111]) simp_all

lemma fl_step_77: "fadd 0 (4886718345671111 / 4398046511104) = 4886718345671111 / 4398046511104"
  unfolding fadd_def by (rule fl_nearest_up [where k = 10 and n = 4886718345671111]) simp_all

lemma fl_step_78: "fadd (4886718345671111 / 4398046511104) (4886718345671111 / 4398046511104) = 4886718345671111 / 2199023255552"
  unfolding fadd_def by (rule fl_nearest_up [where k = 11 and n = 4886718345671111]) simp_all

lemma fl_step_79: "fadd (4886718345671111 / 2199023255552) (4886718345671111 / 4398046511104) = 3665038759253333 / 1099511627776"
  unfolding fadd_def by (rule fl_tie_up [where k = 11 and n = 7330077518506666]) simp_all

lemma fl_step_80: "fadd 0 13 = 13"
  unfolding fadd_def by (rule fl_nearest_up [where k = 3 and n = 7318349394477056]) simp_all

lemma fl_step_81: "fadd 13 7 = 20"
  unfolding fadd_def by (rule fl_nearest_up [where k = 4 and n = 5629499534213120]) simp_all

lemma fl_step_82: "fadd 20 4 = 24"
  unfolding fadd_def by (rule fl_nearest_up [where k = 4 and n = 6755399441055744]) simp_all

lemma fl_step_83: "fdiv 13 24 = 4878899596318037 / 9007199254740992"
  unfolding fdiv_def by (rule fl_nearest_down [where k = 1 and n = 4878899596318037]) simp_all

lemma fl_step_84: "fmul (4878899596318037 / 9007199254740992) (4878899596318037 / 9007199254740992) = 5285474562677873 / 18014398509481984"
  unfolding fmul_def by (rule fl_nearest_down [where k = 2 and n = 5285474562677873]) simp_all

lemma fl_step_85: "fmul (5285474562677873 / 18014398509481984) 10000 = 806499414471111 / 274877906944"
  unfolding fmul_def by (rule fl_nearest_up [where k = 11 and n = 6451995315768888]) simp_all

lemma fl_step_86: "fadd 0 (806499414471111 / 274877906944) = 806499414471111 / 274877906944"
  unfolding fadd_def by (rule fl_nearest_up [where k = 11 and n = 6451995315768888]) simp_all

lemma fl_step_87: "fdiv 7 24 = 5254199565265579 / 18014398509481984"
  unfolding fdiv_def by (rule fl_nearest_down [where k = 2 and n = 5254199565265579]) simp_all

lemma fl_step_88: "fmul (5254199565265579 / 18014398509481984) (5254199565265579 / 18014398509481984) = 6129899492809843 / 72057594037927936"
  unfolding fmul_def by (rule fl_nearest_down [where k = 4 and n = 6129899492809843]) simp_all

lemma fl_step_89: "fmul (6129899492809843 / 72057594037927936) 10000 = 3741393733404445 / 4398046511104"
  unfolding fmul_def by (rule fl_nearest_up [where k = 9 and n = 7482787466808890]) simp_all

lemma fl_step_90: "fadd (806499414471111 / 274877906944) (3741393733404445 / 4398046511104) = 4161346091235555 / 1099511627776"
  unfolding fadd_def by (rule fl_tie_up [where k = 11 and n = 8322692182471110]) simp_all

lemma fl_step_91: "fdiv 4 24 = 6004799503160661 / 36028797018963968"
  unfolding fdiv_def by (rule fl_nearest_down [where k = 3 and n = 6004799503160661]) simp_all

lemma fl_step_92: "fmul (6004799503160661 / 36028797018963968) (6004799503160661 / 36028797018963968) = 2001599834386887 / 72057594037927936"
  unfolding fmul_def by (rule fl_nearest_down [where k = 6 and n = 8006399337547548]) simp_all

lemma fl_step_93: "fmul (2001599834386887 / 72057594037927936) 10000 = 4886718345671111 / 17592186044416"
  unfolding fmul_def by (rule fl_nearest_up [where k = 8 and n = 4886718345671111]) simp_all

lemma fl_step_94: "fadd (4161346091235555 / 1099511627776) (4886718345671111 / 17592186044416) = 8933531975679999 / 2199023255552"
  unfolding fadd_def by (rule fl_nearest_up [where k = 11 and n = 8933531975679999]) simp_all

lemma fl_step_95: "fmul 13 (2476979795053773 / 2251799813685248) = 4025092166962381 / 281474976710656"
  unfolding fmul_def by (rule fl_nearest_up [where k = 3 and n = 8050184333924762]) simp_all

lemma fl_step_96: "fmul 7 (2476979795053773 / 2251799813685248) = 4334714641344103 / 562949953421312"
  unfolding fmul_def by (rule fl_tie_up [where k = 2 and n = 8669429282688205]) simp_all

lemma fl_step_97: "fmul 4 (2476979795053773 / 2251799813685248) = 2476979795053773 / 562949953421312"
  unfolding fmul_def by (rule fl_nearest_up [where k = 2 and n = 4953959590107546]) simp_all

lemma fl_step_98: "fadd 0 (4025092166962381 / 281474976710656) = 4025092166962381 / 281474976710656"
  unfolding fadd_def by (rule fl_nearest_up [where k = 3 and n = 8050184333924762]) simp_all

lemma fl_step_99: "fadd (4025092166962381 / 281474976710656) (4334714641344103 / 562949953421312) = 22"
  unfolding fadd_def by (rule fl_tie_up [where k = 4 and n = 6192449487634432]) simp_all

lemma fl_step_100: "fadd 22 (2476979795053773 / 562949953421312) = 3715469692580659 / 140737488355328"
  unfolding fadd_def by (rule fl_tie_up [where k = 4 and n = 7430939385161318]) simp_all

lemma fl_step_101: "fdiv (4025092166962381 / 281474976710656) (3715469692580659 / 140737488355328) = 2439449798159019 / 4503599627370496"
  unfolding fdiv_def by (rule fl_nearest_down [where k = 1 and n = 4878899596318038]) simp_all

lemma fl_step_102: "fmul (2439449798159019 / 4503599627370496) (2439449798159019 / 4503599627370496) = 5285474562677875 / 18014398509481984"
  unfolding fmul_def by (rule fl_nearest_down [where k = 2 and n = 5285474562677875]) simp_all

lemma fl_step_103: "fmul (5285474562677875 / 18014398509481984) 10000 = 3225997657884445 / 1099511627776"
  unfolding fmul_def by (rule fl_nearest_up [where k = 11 and n = 6451995315768890]) simp_all

lemma fl_step_104: "fadd 0 (3225997657884445 / 1099511627776) = 3225997657884445 / 1099511627776"
  unfolding fadd_def by (rule fl_nearest_up [where k = 11 and n = 6451995315768890]) simp_all

lemma fl_step_105: "fdiv (4334714641344103 / 562949953421312) (3715469692580659 / 140737488355328) = 1313549891316395 / 4503599627370496"
  unfolding fdiv_def by (rule fl_nearest_down [where k = 2 and n = 5254199565265580]) simp_all

lemma fl_step_106: "fmul (1313549891316395 / 4503599627370496) (1313549891316395 / 4503599627370496) = 6129899492809845 / 72057594037927936"
  unfolding fmul_def by (rule fl_nearest_down [where k = 4 and n = 6129899492809845]) simp_all

lemma fl_step_107: "fmul (6129899492809845 / 72057594037927936) 10000 = 7482787466808893 / 8796093022208"
  unfolding fmul_def by (rule fl_nearest_up [where k = 9 and n = 7482787466808893]) simp_all

lemma fl_step_108: "fadd (3225997657884445 / 1099511627776) (7482787466808893 / 8796093022208) = 8322692182471113 / 2199023255552"
  unfolding fadd_def by (rule fl_nearest_up [where k = 11 and n = 8322692182471113]) simp_all

lemma fl_step_109: "fdiv (2476979795053773 / 562949953421312) (3715469692580659 / 140737488355328) = 3002399751580331 / 18014398509481984"
  unfolding fdiv_def by (rule fl_nearest_down [where k = 3 and n = 6004799503160662]) simp_all

lemma fl_step_110: "fmul (3002399751580331 / 18014398509481984) (3002399751580331 / 18014398509481984) = 4003199668773775 / 144115188075855872"
  unfolding fmul_def by (rule fl_nearest_down [where k = 6 and n = 8006399337547550]) simp_all

lemma fl_step_111: "fmul (4003199668773775 / 144115188075855872) 10000 = 610839793208889 / 2199023255552"
  unfolding fmul_def by (rule fl_nearest_up [where k = 8 and n = 4886718345671112]) simp_all

lemma fl_step_112: "fadd (8322692182471113 / 2199023255552) (610839793208889 / 2199023255552) = 4466765987840001 / 1099511627776"
  unfolding fadd_def by (rule fl_nearest_up [where k = 11 and n = 8933531975680002]) simp_all

lemmas fl_steps =
  fl_step_1 fl_step_2 fl_step_3 fl_step_4 fl_step_5 fl_step_6 fl_step_7 fl_step_8
  fl_step_9 fl_step_10 fl_step_11 fl_step_12 fl_step_13 fl_step_14 fl_step_15 fl_step_16
  fl_step_17 fl_step_18 fl_step_19 fl_step_20 fl_step_21 fl_step_22 fl_step_23 fl_step_24
  fl_step_25 fl_step_26 fl_step_27 fl_step_28 fl_step_29 fl_step_30 fl_step_31 fl_step_32
  fl_step_33 fl_step_34 fl_step_35 fl_step_36 fl_step_37 fl_step_38 fl_step_39 fl_step_40
  fl_step_41 fl_step_42 fl_step_43 fl_step_44 fl_step_45 fl_step_46 fl_step_47 fl_step_48
  fl_step_49 fl_step_50 fl_step_51 fl_step_52 fl_step_53 fl_step_54 fl_step_55 fl_step_56
  fl_step_57 fl_step_58 fl_step_59 fl_step_60 fl_step_61 fl_step_62 fl_step_63 fl_step_64
  fl_step_65 fl_step_66 fl_step_67 fl_step_68 fl_step_69 fl_step_70 fl_step_71 fl_step_72
  fl_step_73 fl_step_74 fl_step_75 fl_step_76 fl_step_77 fl_step_78 fl_step_79 fl_step_80
  fl_step_81 fl_step_82 fl_step_83 fl_step_84 fl_step_85 fl_step_86 fl_step_87 fl_step_88
  fl_step_89 fl_step_90 fl_step_91 fl_step_92 fl_step_93 fl_step_94 fl_step_95 fl_step_96
  fl_step_97 fl_step_98 fl_step_99 fl_step_100 fl_step_101 fl_step_102 fl_step_103
  fl_step_104 fl_step_105 fl_step_106 fl_step_107 fl_step_108 fl_step_109 fl_step_110
  fl_step_111 fl_step_112

lemma fadd_zero: "fadd 0 0 = 0"
  by (simp add: fadd_def fl_def)

lemma no_caps_result:
  "calculateMarketConcentration ex_no_caps
     = \<lparr>mc_hhi_index = 0, mc_concentration_level = ''unknown'',
        mc_top_3_market_share = Undefined\<rparr>"
  by (simp add: calculateMarketConcentration_def total_market_cap_def ex_no_caps_def
      ex_sector_def fadd_zero)

lemma four_equal_values:
  "total_market_cap ex_four_equal = 28" "hhi_sum 28 ex_four_equal = 2500"
  by (simp_all add: total_market_cap_def hhi_sum_def ex_four_equal_def ex_sector_def Let_def
      fl_steps)

lemma ten_values:
  "total_market_cap ex_ten = 20" "hhi_sum 20 ex_ten = 1500"
  by (simp_all add: total_market_cap_def hhi_sum_def ex_ten_def ex_sector_def Let_def fl_steps)

lemma near_2500_values:
  "total_market_cap ex_near_2500 = 201"
  "hhi_sum 201 ex_near_2500 = 1374491590822675 / 549755813888"
  by (simp_all add: total_market_cap_def hhi_sum_def ex_near_2500_def ex_sector_def Let_def
      fl_steps)

lemma seven_values:
  "total_market_cap ex_seven = 20"
  "hhi_sum 20 ex_seven = 5497558138880001 / 2199023255552"
  by (simp_all add: total_market_cap_def hhi_sum_def ex_seven_def ex_sector_def Let_def
      fl_steps)

lemma three_equal_values:
  "total_market_cap ex_three_equal = 3"
  "hhi_sum 3 ex_three_equal = 3665038759253333 / 1099511627776"
  by (simp_all add: total_market_cap_def hhi_sum_def ex_three_equal_def ex_sector_def Let_def
      fl_steps)

lemma uneven_values:
  "total_market_cap ex_uneven = 24"
  "hhi_sum 24 ex_uneven = 8933531975679999 / 2199023255552"
  by (simp_all add: total_market_cap_def hhi_sum_def ex_uneven_def ex_sector_def Let_def
      fl_steps)

lemma uneven_scaled:
  "scale_caps ex_factor ex_uneven
     = [ex_sector ''A'' 13 \<lparr>sp_total_market_cap := 4025092166962381 / 281474976710656\<rparr>,
        ex_sector ''B'' 7 \<lparr>sp_total_market_cap := 4334714641344103 / 562949953421312\<rparr>,
        ex_sector ''C'' 4 \<lparr>sp_total_market_cap := 2476979795053773 / 562949953421312\<rparr>]"
  by (simp add: scale_caps_def ex_uneven_def ex_factor_def ex_sector_def fl_steps)

lemma uneven_scaled_values:
  "total_market_cap (scale_caps ex_factor ex_uneven) = 3715469692580659 / 140737488355328"
  "hhi_sum (3715469692580659 / 140737488355328) (scale_caps ex_factor ex_uneven)
     = 4466765987840001 / 1099511627776"
  by (simp_all add: uneven_scaled total_market_cap_def hhi_sum_def ex_sector_def Let_def
      fl_steps)

lemma index_and_level:
  "mc_hhi_index (calculateMarketConcentration sp)
     = (if total_market_cap sp = 0 then 0 else js_round (hhi_sum (total_market_cap sp) sp))"
  "mc_concentration_level (calculateMarketConcentration sp)
     = (if total_market_cap sp = 0 then ''unknown''
        else if hhi_sum (total_market_cap sp) sp > 2500 then ''highly_concentrated''
        else if hhi_sum (total_market_cap sp) sp > 1500 then ''moderately_concentrated''
        else ''competitive'')"
  by (simp_all add: calculateMarketConcentration_def Let_def)

lemma example_results:
  "mc_hhi_index (calculateMarketConcentration ex_near_2500) = 2500"
  "mc_concentration_level (calculateMarketConcentration ex_near_2500) = ''highly_concentrated''"
  "mc_hhi_index (calculateMarketConcentration ex_seven) = 2500"
  "mc_concentration_level (calculateMarketConcentration ex_seven) = ''highly_concentrated''"
  "mc_hhi_index (calculateMarketConcentration ex_three_equal) = 3333"
  "mc_hhi_index (calculateMarketConcentration ex_uneven) = 4062"
  "mc_hhi_index (calculateMarketConcentration (scale_caps ex_factor ex_uneven)) = 4063"
  "mc_hhi_index (calculateMarketConcentration ex_four_equal) = 2500"
  "mc_concentration_level (calculateMarketConcentration ex_four_equal)
     = ''moderately_concentrated''"
  "mc_hhi_index (calculateMarketConcentration ex_ten) = 1500"
  "mc_concentration_level (calculateMarketConcentration ex_ten) = ''competitive''"
  by (simp_all add: index_and_level js_round_def near_2500_values seven_values
      three_equal_values uneven_values uneven_scaled_values four_equal_values ten_values)

text \<open>
  C4 as stated fails on the values the operation returns. When the total market cap is
  zero no bucket is chosen: the index \<open>0\<close> comes with the level \<open>unknown\<close>, not
  \<open>competitive\<close>. The reported \<open>hhi_index\<close> is rounded after the level is chosen: the
  caps 51, 50, 50, 50 report the index \<open>2500\<close> with \<open>highly_concentrated\<close>. And the
  index is computed in double arithmetic: the caps 8, 4, 4, 1, 1, 1, 1 have the
  Herfindahl-Hirschman index exactly \<open>2500\<close>, and the code computes
  \<open>2500.0000000000005\<close> and answers \<open>highly_concentrated\<close>.
\<close>

theorem C4_counterexample:
  "mc_hhi_index (calculateMarketConcentration ex_no_caps) = 0
   \<and> mc_concentration_level (calculateMarketConcentration ex_no_caps) = ''unknown''
   \<and> mc_hhi_index (calculateMarketConcentration ex_near_2500) = 2500
   \<and> mc_concentration_level (calculateMarketConcentration ex_near_2500)
       = ''highly_concentrated''
   \<and> exact_hhi ex_seven = 2500
   \<and> mc_hhi_index (calculateMarketConcentration ex_seven) = 2500
   \<and> mc_concentration_level (calculateMarketConcentration ex_seven) = ''highly_concentrated''"
proof -
  have "exact_hhi ex_seven = 2500"
    by (simp add: exact_hhi_def caps_def ex_seven_def ex_sector_def)
  thus ?thesis by (simp add: no_caps_result example_results)
qed

text \<open>
  C4 (amended). When the total market cap computed by the operation is zero, the result
  is the index \<open>0\<close> with the level \<open>unknown\<close>. Otherwise the classifier applies strict
  inequalities to the index as computed in double arithmetic, before it is rounded: a
  computed index of exactly 2500 is classified \<open>moderately_concentrated\<close>, one of
  exactly 1500 \<open>competitive\<close>, one above 2500 \<open>highly_concentrated\<close>, one above 1500 and
  at most 2500 \<open>moderately_concentrated\<close>, one of at most 1500 \<open>competitive\<close>; and the
  reported \<open>hhi_index\<close> is that index rounded, so that a reported index above 2500 comes
  with \<open>highly_concentrated\<close>, one strictly between 1500 and 2500 with
  \<open>moderately_concentrated\<close>, one below 1500 with \<open>competitive\<close>, and
  \<open>highly_concentrated\<close> comes with a reported index of at least 2500,
  \<open>moderately_concentrated\<close> with one between 1500 and 2500, \<open>competitive\<close> with one of
  at most 1500.
\<close>

theorem C4_concentration_buckets:
  "let r = calculateMarketConcentration sp;
       hhi = hhi_sum (total_market_cap sp) sp
   in (total_market_cap sp = 0 \<longrightarrow>
            r = \<lparr>mc_hhi_index = 0, mc_concentration_level = ''unknown'',
                 mc_top_3_market_share = Undefined\<rparr>)
       \<and> (total_market_cap sp \<noteq> 0 \<longrightarrow>
            mc_hhi_index r = js_round hhi
          \<and> (hhi = 2500 \<longrightarrow> mc_concentration_level r = ''moderately_concentrated'')
          \<and> (hhi = 1500 \<longrightarrow> mc_concentration_level r = ''competitive'')
          \<and> (mc_concentration_level r = ''highly_concentrated'' \<longleftrightarrow> 2500 < hhi)
          \<and> (mc_concentration_level r = ''moderately_concentrated''
                \<longleftrightarrow> 1500 < hhi \<and> hhi \<le> 2500)
          \<and> (mc_concentration_level r = ''competitive'' \<longleftrightarrow> hhi \<le> 1500)
          \<and> (2500 < mc_hhi_index r \<longrightarrow> mc_concentration_level r = ''highly_concentrated'')
          \<and> (1500 < mc_hhi_index r \<and> mc_hhi_index r < 2500 \<longrightarrow>
                mc_concentration_level r = ''moderately_concentrated'')
          \<and> (mc_hhi_index r < 1500 \<longrightarrow> mc_concentration_level r = ''competitive'')
          \<and> (mc_concentration_level r = ''highly_concentrated'' \<longrightarrow> 2500 \<le> mc_hhi_index r)
          \<and> (mc_concentration_level r = ''moderately_concentrated'' \<longrightarrow>
                1500 \<le> mc_hhi_index r \<and> mc_hhi_index r \<le> 2500)
          \<and> (mc_concentration_level r = ''competitive'' \<longrightarrow> mc_hhi_index r \<le> 1500))"
proof -
  define r where "r = calculateMarketConcentration sp"
  define hhi where "hhi = hhi_sum (total_market_cap sp) sp"
  have zero: "total_market_cap sp = 0 \<longrightarrow>
      r = \<lparr>mc_hhi_index = 0, mc_concentration_level = ''unknown'',
           mc_top_3_market_share = Undefined\<rparr>"
    by (simp add: r_def calculateMarketConcentration_def)
  have nonzero: "total_market_cap sp \<noteq> 0 \<longrightarrow>
            mc_hhi_index r = js_round hhi
          \<and> (hhi = 2500 \<longrightarrow> mc_concentration_level r = ''moderately_concentrated'')
          \<and> (hhi = 1500 \<longrightarrow> mc_concentration_level r = ''competitive'')
          \<and> (mc_concentration_level r = ''highly_concentrated'' \<longleftrightarrow> 2500 < hhi)
          \<and> (mc_concentration_level r = ''moderately_concentrated''
                \<longleftrightarrow> 1500 < hhi \<and> hhi \<le> 2500)
          \<and> (mc_concentration_level r = ''competitive'' \<longleftrightarrow> hhi \<le> 1500)
          \<and> (2500 < mc_hhi_index r \<longrightarrow> mc_concentration_level r = ''highly_concentrated'')
          \<and> (1500 < mc_hhi_index r \<and> mc_hhi_index r < 2500 \<longrightarrow>
                mc_concentration_level r = ''moderately_concentrated'')
          \<and> (mc_hhi_index r < 1500 \<longrightarrow> mc_concentration_level r = ''competitive'')
          \<and> (mc_concentration_level r = ''highly_concentrated'' \<longrightarrow> 2500 \<le> mc_hhi_index r)
          \<and> (mc_concentration_level r = ''moderately_concentrated'' \<longrightarrow>
                1500 \<le> mc_hhi_index r \<and> mc_hhi_index r \<le> 2500)
          \<and> (mc_concentration_level r = ''competitive'' \<longrightarrow> mc_hhi_index r \<le> 1500)"
  proof
    assume t: "total_market_cap sp \<noteq> 0"
    have idx: "mc_hhi_index r = \<lfloor>hhi + 1 / 2\<rfloor>"
      using t by (simp add: r_def hhi_def index_and_level js_round_def)
    have lvl: "mc_concentration_level r
        = (if hhi > 2500 then ''highly_concentrated''
           else if hhi > 1500 then ''moderately_concentrated'' else ''competitive'')"
      using t by (simp add: r_def hhi_def index_and_level)
    have 1: "mc_hhi_index r = js_round hhi" by (simp add: idx js_round_def)
    have 2: "hhi = 2500 \<longrightarrow> mc_concentration_level r = ''moderately_concentrated''"
      by (simp add: lvl)
    have 3: "hhi = 1500 \<longrightarrow> mc_concentration_level r = ''competitive''"
      by (simp add: lvl)
    have 4: "mc_concentration_level r = ''highly_concentrated'' \<longleftrightarrow> 2500 < hhi"
      by (simp add: lvl)
    have 5: "mc_concentration_level r = ''moderately_concentrated''
               \<longleftrightarrow> 1500 < hhi \<and> hhi \<le> 2500"
      by (auto simp: lvl)
    have 6: "mc_concentration_level r = ''competitive'' \<longleftrightarrow> hhi \<le> 1500"
      by (auto simp: lvl)
    have 7: "2500 < mc_hhi_index r \<longrightarrow> mc_concentration_level r = ''highly_concentrated''"
    proof
      assume "2500 < mc_hhi_index r"
      hence "2500 < hhi" unfolding idx by linarith
      thus "mc_concentration_level r = ''highly_concentrated''" by (simp add: 4)
    qed
    have 8: "1500 < mc_hhi_index r \<and> mc_hhi_index r < 2500 \<longrightarrow>
               mc_concentration_level r = ''moderately_concentrated''"
    proof
      assume "1500 < mc_hhi_index r \<and> mc_hhi_index r < 2500"
      hence "1500 < hhi \<and> hhi \<le> 2500" unfolding idx by linarith
      thus "mc_concentration_level r = ''moderately_concentrated''" by (simp add: 5)
    qed
    have 9: "mc_hhi_index r < 1500 \<longrightarrow> mc_concentration_level r = ''competitive''"
    proof
      assume "mc_hhi_index r < 1500"
      hence "hhi \<le> 1500" unfolding idx by linarith
      thus "mc_concentration_level r = ''competitive''" by (simp add: 6)
    qed
    have 10: "mc_concentration_level r = ''highly_concentrated'' \<longrightarrow> 2500 \<le> mc_hhi_index r"
    proof
      assume "mc_concentration_level r = ''highly_concentrated''"
      hence "2500 < hhi" by (simp add: 4)
      thus "2500 \<le> mc_hhi_index r" unfolding idx by linarith
    qed
    have 11: "mc_concentration_level r = ''moderately_concentrated'' \<longrightarrow>
                1500 \<le> mc_hhi_index r \<and> mc_hhi_index r \<le> 2500"
    proof
      assume "mc_concentration_level r = ''moderately_concentrated''"
      hence "1500 < hhi \<and> hhi \<le> 2500" by (simp add: 5)
      thus "1500 \<le> mc_hhi_index r \<and> mc_hhi_index r \<le> 2500" unfolding idx by linarith
    qed
    have 12: "mc_concentration_level r = ''competitive'' \<longrightarrow> mc_hhi_index r \<le> 1500"
    proof
      assume "mc_concentration_level r = ''competitive''"
      hence "hhi \<le> 1500" by (simp add: 6)
      thus "mc_hhi_index r \<le> 1500" unfolding idx by linarith
    qed
    from 1 2 3 4 5 6 7 8 9 10 11 12
    show "mc_hhi_index r = js_round hhi
          \<and> (hhi = 2500 \<longrightarrow> mc_concentration_level r = ''moderately_concentrated'')
          \<and> (hhi = 1500 \<longrightarrow> mc_concentration_level r = ''competitive'')
          \<and> (mc_concentration_level r = ''highly_concentrated'' \<longleftrightarrow> 2500 < hhi)
          \<and> (mc_concentration_level r = ''moderately_concentrated''
                \<longleftrightarrow> 1500 < hhi \<and> hhi \<le> 2500)
          \<and> (mc_concentration_level r = ''competitive'' \<longleftrightarrow> hhi \<le> 1500)
          \<and> (2500 < mc_hhi_index r \<longrightarrow> mc_concentration_level r = ''highly_concentrated'')
          \<and> (1500 < mc_hhi_index r \<and> mc_hhi_index r < 2500 \<longrightarrow>
                mc_concentration_level r = ''moderately_concentrated'')
          \<and> (mc_hhi_index r < 1500 \<longrightarrow> mc_concentration_level r = ''competitive'')
          \<and> (mc_concentration_level r = ''highly_concentrated'' \<longrightarrow> 2500 \<le> mc_hhi_index r)
          \<and> (mc_concentration_level r = ''moderately_concentrated'' \<longrightarrow>
                1500 \<le> mc_hhi_index r \<and> mc_hhi_index r \<le> 2500)
          \<and> (mc_concentration_level r = ''competitive'' \<longrightarrow> mc_hhi_index r \<le> 1500)"
      by (intro conjI)
  qed
  from zero nonzero show ?thesis unfolding Let_def r_def hhi_def by (rule conjI)
qed

theorem C4_witness:
  "calculateMarketConcentration ex_no_caps
     = \<lparr>mc_hhi_index = 0, mc_concentration_level = ''unknown'',
        mc_top_3_market_share = Undefined\<rparr>
   \<and> hhi_sum (total_market_cap ex_four_equal) ex_four_equal = 2500
   \<and> mc_hhi_index (calculateMarketConcentration ex_four_equal) = 2500
   \<and> mc_concentration_level (calculateMarketConcentration ex_four_equal)
       = ''moderately_concentrated''
   \<and> hhi_sum (total_market_cap ex_ten) ex_ten = 1500
   \<and> mc_hhi_index (calculateMarketConcentration ex_ten) = 1500
   \<and> mc_concentration_level (calculateMarketConcentration ex_ten) = ''competitive''
   \<and> 2500 < hhi_sum (total_market_cap ex_seven) ex_seven
   \<and> mc_concentration_level (calculateMarketConcentration ex_seven) = ''highly_concentrated''"
proof -
  have zero: "total_market_cap ex_no_caps = 0"
    by (simp add: total_market_cap_def ex_no_caps_def ex_sector_def fadd_zero)
  show ?thesis
    using C4_concentration_buckets [of ex_no_caps] C4_concentration_buckets [of ex_four_equal]
      C4_concentration_buckets [of ex_ten] C4_concentration_buckets [of ex_seven]
    by (simp add: Let_def zero four_equal_values ten_values seven_values js_round_def)
qed

subsubsection \<open>The computed index against the exact index\<close>















subsubsection \<open>Multiplying every cap by a constant\<close>







subsubsection \<open>Multiplying every cap by a power of two\<close>












subsection \<open>C3: top performers\<close>

text \<open>
  The claim's words. The price history of a company is what \<open>getHistoricalPrices\<close>
  obtains for its id: the id is resolved to the first company of the list that bears it,
  and that company's symbol is fetched; \<open>None\<close> stands for a failed fetch. A company is
  included when its history has at least two points, with the change computed from the
  first (most recent) and the last (oldest) close.
\<close>

definition price_window :: "remote \<Rightarrow> company list \<Rightarrow> int \<Rightarrow> company \<Rightarrow> price list option" where
  "price_window api cs days c =
     (case find (\<lambda>x. c_id x = c_id c) cs of
        None \<Rightarrow> Some []
      | Some r \<Rightarrow>
          (case api (GetHistoricalPrices (c_symbol r) days) of
             Inl e \<Rightarrow> None
           | Inr data \<Rightarrow> Some (or_empty (r_historicalData data))))"

definition period_change :: "price list \<Rightarrow> real" where
  "period_change h = (close (hd h) - close (last h)) / close (last h) * 100"

definition performance_of :: "remote \<Rightarrow> company list \<Rightarrow> int \<Rightarrow> company \<Rightarrow> performance option" where
  "performance_of api cs days c =
     (case price_window api cs days c of
        None \<Rightarrow> None
      | Some h \<Rightarrow>
          if length h < 2 then None
          else Some \<lparr>pf_symbol = c_symbol c, pf_name = c_name c, pf_sector = c_sector c,
                     pf_current_price = close (hd h), pf_period_change = period_change h\<rparr>)"

definition price_requests :: "company list \<Rightarrow> int \<Rightarrow> company \<Rightarrow> request list" where
  "price_requests cs days c =
     (case find (\<lambda>x. c_id x = c_id c) cs of
        None \<Rightarrow> []
      | Some r \<Rightarrow> [GetHistoricalPrices (c_symbol r) days])"

definition is_price_request :: "request \<Rightarrow> bool" where
  "is_price_request r = (case r of GetHistoricalPrices s d \<Rightarrow> True | _ \<Rightarrow> False)"

lemma getAllCompanies_fetched:
  assumes "getAllCompanies api lg = (Inr cs, lg')"
  shows "getAllCompanies api lg2 = (Inr cs, lg2 @ [GetCompanies])" and "lg' = lg @ [GetCompanies]"
  using assms by (auto simp: getAllCompanies_run split: sum.splits)

lemma make_performance_eq:
  "2 \<le> length h \<Longrightarrow>
     make_performance c h =
       \<lparr>pf_symbol = c_symbol c, pf_name = c_name c, pf_sector = c_sector c,
        pf_current_price = close (hd h), pf_period_change = period_change h\<rparr>"
  by (cases h) (auto simp: make_performance_def period_change_def Let_def last_conv_nth)

lemma loop_step_failed:
  assumes "getAllCompanies api lg0 = (Inr cs, lg1)" and "price_window api cs days c = None"
  shows "\<exists>e. getHistoricalPrices api (c_id c) days lg =
           (Inl e, lg @ GetCompanies # price_requests cs days c)"
  using getAllCompanies_fetched(1) [OF assms(1), of lg] assms(2)
  by (auto simp: getHistoricalPrices_def io_bind_def io_return_def fetchAPI_def
      price_window_def price_requests_def split: option.splits sum.splits)

lemma loop_step_fetched:
  assumes "getAllCompanies api lg0 = (Inr cs, lg1)" and "price_window api cs days c = Some h"
  shows "getHistoricalPrices api (c_id c) days lg =
           (Inr h, lg @ GetCompanies # price_requests cs days c)"
  using getAllCompanies_fetched(1) [OF assms(1), of lg] assms(2)
  by (auto simp: getHistoricalPrices_def io_bind_def io_return_def fetchAPI_def
      price_window_def price_requests_def split: option.splits sum.splits)

lemma performers_loop_run:
  assumes "getAllCompanies api lg0 = (Inr cs, lg1)"
  shows "performers_loop api days xs acc lg =
           (Inr (acc @ List.map_filter (performance_of api cs days) xs),
            lg @ concat (map (\<lambda>c. GetCompanies # price_requests cs days c) xs))"
proof (induction xs arbitrary: acc lg)
  case Nil
  show ?case by (simp add: List.map_filter_simps)
next
  case (Cons c xs)
  show ?case
  proof (cases "price_window api cs days c")
    case None
    from loop_step_failed [OF assms None, of lg] obtain e where
      "getHistoricalPrices api (c_id c) days lg =
         (Inl e, lg @ GetCompanies # price_requests cs days c)" ..
    with None show ?thesis
      by (simp add: Cons.IH List.map_filter_simps performance_of_def)
  next
    case (Some h)
    then show ?thesis
      by (simp add: loop_step_fetched [OF assms Some] Cons.IH List.map_filter_simps
          performance_of_def make_performance_eq)
  qed
qed

lemma slice_to_nonneg: "0 \<le> e \<Longrightarrow> slice_to xs e = take (nat e) xs"
  by (simp add: slice_to_def)

lemma price_request_count:
  "length (filter is_price_request
      (concat (map (\<lambda>c. GetCompanies # price_requests cs days c) xs))) \<le> length xs"
  by (induction xs)
     (auto simp: is_price_request_def price_requests_def split: option.splits)

lemma top_performers_run:
  assumes "getAllCompanies api lg = (Inr cs, lg1)"
  shows "getTopPerformers api days limit lg =
           (Inr (slice_to (sort_desc pf_period_change
                   (List.map_filter (performance_of api cs days) (take 20 cs))) limit),
            lg1 @ concat (map (\<lambda>c. GetCompanies # price_requests cs days c) (take 20 cs)))"
  using assms
  by (simp add: getTopPerformers_def io_bind_def io_return_def
      performers_loop_run [OF assms])

definition ex_prices :: "real list \<Rightarrow> response" where
  "ex_prices closes = \<lparr>r_data = Undefined,
     r_historicalData = Val (map (\<lambda>x. \<lparr>close = x\<rparr>) closes),
     r_shareholderPositions = Undefined, r_positions = Undefined\<rparr>"

definition ex_market :: "company list" where
  "ex_market =
     [ex_company ''1'' ''IBE'' (Val ''Energy'') Undefined,
      ex_company ''2'' ''XYZ'' Undefined Undefined,
      ex_company ''3'' ''SAN'' (Val ''Banking'') Undefined,
      ex_company ''4'' ''TEF'' (Val ''Telecom'') Undefined]"

definition ex_market_api :: remote where
  "ex_market_api req =
     (case req of
        GetCompanies \<Rightarrow> Inr (ex_response ex_market)
      | GetHistoricalPrices s d \<Rightarrow>
          if s = ''IBE'' then Inr (ex_prices [90, 100, 120])
          else if s = ''XYZ'' then Inr (ex_prices [50])
          else if s = ''SAN'' then Inr (ex_prices [110, 100])
          else Inl (Error ''API request failed: 404 Not Found'')
      | GetShareholderPositions \<Rightarrow> Inl (Error ''API request failed: 404 Not Found''))"

lemma ex_market_fetched:
  "getAllCompanies ex_market_api [] = (Inr ex_market, [GetCompanies])"
  by (simp add: getAllCompanies_run ex_market_api_def ex_response_def or_empty_def)

lemma ex_market_performances:
  "List.map_filter (performance_of ex_market_api ex_market 7) (take 20 ex_market) =
     [\<lparr>pf_symbol = ''IBE'', pf_name = ''IBE'', pf_sector = Val ''Energy'',
       pf_current_price = 90, pf_period_change = - 25\<rparr>,
      \<lparr>pf_symbol = ''SAN'', pf_name = ''SAN'', pf_sector = Val ''Banking'',
       pf_current_price = 110, pf_period_change = 10\<rparr>]"
  by (simp add: List.map_filter_simps performance_of_def price_window_def ex_market_def
      ex_company_def ex_market_api_def ex_prices_def or_empty_def period_change_def)

text \<open>
  C3 as stated fails for a negative \<open>limit\<close>: \<open>slice(0, -1)\<close> drops the last item only,
  so one item is returned although the limit is \<open>-1\<close>.
\<close>

theorem C3_counterexample:
  "fst (getTopPerformers ex_market_api 7 (- 1) []) =
     Inr [\<lparr>pf_symbol = ''SAN'', pf_name = ''SAN'', pf_sector = Val ''Banking'',
           pf_current_price = 110, pf_period_change = 10\<rparr>]
   \<and> \<not> (int (length
          [\<lparr>pf_symbol = ''SAN'', pf_name = ''SAN'', pf_sector = Val ''Banking'',
            pf_current_price = 110, pf_period_change = 10\<rparr>]) \<le> - 1)"
  by (simp add: top_performers_run [OF ex_market_fetched] ex_market_performances
      sort_desc_def slice_to_def)

text \<open>
  C3 (amended). For every \<open>days\<close> and every \<open>limit \<ge> 0\<close>, when the company list has
  been fetched and no window's oldest close is zero (so that every change is a finite
  number), \<open>getTopPerformers\<close> returns at most \<open>limit\<close> items, sorted non-increasing by
  \<open>period_change\<close>; it issues per-company price fetches for at most the first 20
  companies of the company list (one re-fetch of the company list and at most one price
  fetch for each of them); every company whose price history has fewer than 2 points,
  or whose fetch fails, is excluded, and each included item's \<open>period_change\<close> equals
  \<open>(recent.close - old.close) / old.close * 100\<close> computed from the first (most recent)
  and last (oldest) price in the window.
\<close>

theorem C3_top_performers:
  assumes "getAllCompanies api lg = (Inr cs, lg1)"
    and "0 \<le> limit"
    and "\<forall>c \<in> set (take 20 cs). \<forall>h. price_window api cs days c = Some h \<longrightarrow>
           2 \<le> length h \<longrightarrow> close (last h) \<noteq> 0"
  shows "\<exists>items lg2. getTopPerformers api days limit lg = (Inr items, lg2)
       \<and> int (length items) \<le> limit
       \<and> sorted_wrt (\<lambda>a b. pf_period_change b \<le> pf_period_change a) items
       \<and> items = take (nat limit) (sort_desc pf_period_change
                       (List.map_filter (performance_of api cs days) (take 20 cs)))
       \<and> lg2 = lg1 @ concat (map (\<lambda>c. GetCompanies # price_requests cs days c) (take 20 cs))
       \<and> length (filter is_price_request lg2) \<le> length (filter is_price_request lg) + 20"
proof -
  define performances where
    "performances = List.map_filter (performance_of api cs days) (take 20 cs)"
  define items where "items = take (nat limit) (sort_desc pf_period_change performances)"
  define lg2 where
    "lg2 = lg1 @ concat (map (\<lambda>c. GetCompanies # price_requests cs days c) (take 20 cs))"
  have run: "getTopPerformers api days limit lg = (Inr items, lg2)"
    using assms(2)
    by (simp add: top_performers_run [OF assms(1)] slice_to_nonneg items_def lg2_def
        performances_def)
  have len: "int (length items) \<le> limit"
    using assms(2) by (simp add: items_def)
  have srt: "sorted_wrt (\<lambda>a b. pf_period_change b \<le> pf_period_change a) items"
    unfolding items_def by (rule sorted_wrt_take) (rule sorted_sort_desc)
  have "lg1 = lg @ [GetCompanies]"
    using assms(1) by (rule getAllCompanies_fetched(2))
  moreover have "length (filter is_price_request
      (concat (map (\<lambda>c. GetCompanies # price_requests cs days c) (take 20 cs)))) \<le> 20"
    using price_request_count [of cs days "take 20 cs"] by simp
  ultimately have cnt:
    "length (filter is_price_request lg2) \<le> length (filter is_price_request lg) + 20"
    by (simp add: lg2_def is_price_request_def)
  from run len srt cnt show ?thesis
    unfolding items_def performances_def lg2_def by blast
qed

theorem C3_witness:
  "getAllCompanies ex_market_api [] = (Inr ex_market, [GetCompanies])
   \<and> fst (getTopPerformers ex_market_api 7 1 []) =
       Inr [\<lparr>pf_symbol = ''SAN'', pf_name = ''SAN'', pf_sector = Val ''Banking'',
             pf_current_price = 110, pf_period_change = 10\<rparr>]
   \<and> snd (getTopPerformers ex_market_api 7 1 []) =
       [GetCompanies,
        GetCompanies, GetHistoricalPrices ''IBE'' 7,
        GetCompanies, GetHistoricalPrices ''XYZ'' 7,
        GetCompanies, GetHistoricalPrices ''SAN'' 7,
        GetCompanies, GetHistoricalPrices ''TEF'' 7]"
proof -
  have nonzero: "\<forall>c \<in> set (take 20 ex_market). \<forall>h.
      price_window ex_market_api ex_market 7 c = Some h \<longrightarrow>
      2 \<le> length h \<longrightarrow> close (last h) \<noteq> 0"
    by (auto simp: price_window_def ex_market_def ex_company_def ex_market_api_def
        ex_prices_def or_empty_def split: if_splits)
  have requests:
    "concat (map (\<lambda>c. GetCompanies # price_requests ex_market 7 c) (take 20 ex_market)) =
       [GetCompanies, GetHistoricalPrices ''IBE'' 7,
        GetCompanies, GetHistoricalPrices ''XYZ'' 7,
        GetCompanies, GetHistoricalPrices ''SAN'' 7,
        GetCompanies, GetHistoricalPrices ''TEF'' 7]"
    by (simp add: price_requests_def ex_market_def ex_company_def)
  have one: "(0::int) \<le> 1" by simp
  from C3_top_performers [OF ex_market_fetched one nonzero]
  obtain items lg2 where
    "getTopPerformers ex_market_api 7 1 [] = (Inr items, lg2)"
    "items = take (nat 1) (sort_desc pf_period_change
       (List.map_filter (performance_of ex_market_api ex_market 7) (take 20 ex_market)))"
    "lg2 = [GetCompanies] @
       concat (map (\<lambda>c. GetCompanies # price_requests ex_market 7 c) (take 20 ex_market))"
    by blast
  then show ?thesis
    by (simp add: ex_market_fetched ex_market_performances requests sort_desc_def)
qed

subsection \<open>C2: routing a comparison query\<close>

lemma santander_query_lower:
  "toLowerCase ''Compare Santander vs BBVA'' = ''compare santander vs bbva''"
  by code_simp

lemma santander_query_routes:
  "str_match ''compare santander vs bbva'' banking_pattern = None"
  "str_match ''compare santander vs bbva'' risk_pattern = None"
  "str_match ''compare santander vs bbva'' comparison_pattern = Some ''compare''"
  "extract_companies ''compare santander vs bbva'' = [''SANTANDER'', ''BBVA'']"
  by code_simp+

lemma foo_query_lower: "toLowerCase ''compare foo vs bar'' = ''compare foo vs bar''"
  by code_simp

lemma foo_query_routes:
  "str_match ''compare foo vs bar'' banking_pattern = None"
  "str_match ''compare foo vs bar'' risk_pattern = None"
  "str_match ''compare foo vs bar'' comparison_pattern = Some ''compare''"
  "extract_companies ''compare foo vs bar'' = []"
  by code_simp+

lemma comparison_interpretation:
  "\<not> includes_str ''Company comparison analysis'' ''Banking''"
  "\<not> includes_str ''Company comparison analysis'' ''risk''"
  by code_simp+

lemma comparison_suggestions:
  "generateActionSuggestions ''Company comparison analysis'' results =
     [''Use generate_analyst_report for comprehensive analysis'',
      ''Try screen_opportunities to find investment candidates'']"
  by (simp only: generateActionSuggestions_def comparison_interpretation if_False append_Nil)

text \<open>
  An operation set whose comparison returns the company list it was given, and one whose
  comparison throws.
\<close>

definition ex_echo_operations :: "string list operations" where
  "ex_echo_operations =
     \<lparr>banking_performance = io_return [], governance_risks = io_return [],
      compareCompanies = (\<lambda>companies metrics. io_return companies),
      getSectorCorrelationAnalysis = (\<lambda>days. io_return []),
      price_trends = io_return [], market_overview = io_return []\<rparr>"

definition ex_failing_operations :: "string list operations" where
  "ex_failing_operations =
     ex_echo_operations\<lparr>compareCompanies :=
       (\<lambda>companies metrics. io_throw (Error ''Company comparison failed: timeout''))\<rparr>"

text \<open>
  \<open>compareCompanies\<close> resolves each entry of the list it is given with
  \<open>getCompanyBySymbol\<close>, by the exact symbol, and leaves out an entry that resolves to
  no company. Where Santander is listed under its symbol \<open>SAN\<close>, the name \<open>SANTANDER\<close>
  resolves to no company.
\<close>

lemma santander_is_no_symbol:
  "fst (getCompanyBySymbol ex_market_api ''SANTANDER'' []) = Inr None
   \<and> fst (getCompanyBySymbol ex_market_api ''SAN'' [])
       = Inr (Some (ex_company ''3'' ''SAN'' (Val ''Banking'') Undefined))"
  by (simp add: getCompanyBySymbol_def io_bind_def io_return_def ex_market_fetched
      ex_market_def ex_company_def)

text \<open>
  C2 fails on the aliases, by a defect of the router: it hands to the comparison
  operation the upper-cased matched text \<open>SANTANDER\<close> where the symbol \<open>SAN\<close> is
  meant, so that the comparison leaves Santander out.
\<close>

theorem C2_counterexample:
  "a_results (fst (analyzeNaturalQuery ex_echo_operations ''Compare Santander vs BBVA''
      Undefined [])) = Delegated [''SANTANDER'', ''BBVA'']
   \<and> [''SANTANDER'', ''BBVA''] \<noteq> [''SAN'', ''BBVA'']"
  by (simp add: analyzeNaturalQuery_def Let_def santander_query_lower santander_query_routes
      delegate_def completed_def ex_echo_operations_def io_return_def)

text \<open>
  C2, what the code does. The natural-language query \<open>Compare Santander vs BBVA\<close> is
  classified as a comparison query and delegates to the company-comparison operation,
  but with the upper-cased matched names \<open>SANTANDER\<close> and \<open>BBVA\<close> in place of the
  aliases \<open>SAN\<close> and \<open>BBVA\<close> (the result of the operation becomes the analysis
  results; if it throws, the error is caught and reported in the analysis); the query
  \<open>compare foo vs bar\<close> (no known aliases, fewer than 2 matches) returns an error
  result carrying a suggested correction, invoking no operation and throwing no
  exception.
\<close>

theorem C2_comparison_routing:
  "analyzeNaturalQuery ops ''Compare Santander vs BBVA'' context lg =
     (case compareCompanies ops [''SANTANDER'', ''BBVA''] [''all''] lg of
        (Inr r, lg') \<Rightarrow>
          (\<lparr>a_original_query = ''Compare Santander vs BBVA'', a_context = context,
            a_interpretation = ''Company comparison analysis'',
            a_suggested_actions =
              [''Use generate_analyst_report for comprehensive analysis'',
               ''Try screen_opportunities to find investment candidates''],
            a_results = Delegated r, a_execution_plan = [],
            a_error = Undefined, a_fallback_suggestion = Undefined\<rparr>, lg')
      | (Inl (Error message), lg') \<Rightarrow>
          (\<lparr>a_original_query = ''Compare Santander vs BBVA'', a_context = context,
            a_interpretation = ''Company comparison analysis'',
            a_suggested_actions = [], a_results = NoResults, a_execution_plan = [],
            a_error = Val (''Failed to process natural language query: Error: '' @ message),
            a_fallback_suggestion = Val ''Try using specific tool names like get_all_companies, get_recent_news, or get_board_interlocks''\<rparr>,
           lg'))
   \<and> analyzeNaturalQuery ops ''compare foo vs bar'' context lg =
       (\<lparr>a_original_query = ''compare foo vs bar'', a_context = context,
         a_interpretation = ''Company comparison analysis'',
         a_suggested_actions =
           [''Use generate_analyst_report for comprehensive analysis'',
            ''Try screen_opportunities to find investment candidates''],
         a_results = ErrorSuggestion ''Could not identify companies to compare''
                       comparison_suggestion,
         a_execution_plan = [], a_error = Undefined, a_fallback_suggestion = Undefined\<rparr>,
        lg)"
proof -
  have first: "analyzeNaturalQuery ops ''Compare Santander vs BBVA'' context lg =
      delegate
        \<lparr>a_original_query = ''Compare Santander vs BBVA'', a_context = context,
          a_interpretation = ''Company comparison analysis'', a_suggested_actions = [],
          a_results = NoResults, a_execution_plan = [], a_error = Undefined,
          a_fallback_suggestion = Undefined\<rparr>
        (compareCompanies ops [''SANTANDER'', ''BBVA''] [''all'']) Delegated lg"
    by (simp add: analyzeNaturalQuery_def Let_def santander_query_lower
        santander_query_routes)
  have second: "analyzeNaturalQuery ops ''compare foo vs bar'' context lg =
      (completed
         \<lparr>a_original_query = ''compare foo vs bar'', a_context = context,
           a_interpretation = ''Company comparison analysis'', a_suggested_actions = [],
           a_results = ErrorSuggestion ''Could not identify companies to compare''
                         comparison_suggestion,
           a_execution_plan = [], a_error = Undefined,
           a_fallback_suggestion = Undefined\<rparr>, lg)"
    by (simp add: analyzeNaturalQuery_def Let_def foo_query_lower foo_query_routes)
  show ?thesis
    unfolding first second
    by (simp add: delegate_def completed_def caught_def comparison_suggestions
        split: prod.splits sum.splits error.splits)
qed

theorem C2_witness:
  "fst (analyzeNaturalQuery ex_failing_operations ''Compare Santander vs BBVA'' Undefined [])
     = \<lparr>a_original_query = ''Compare Santander vs BBVA'', a_context = Undefined,
        a_interpretation = ''Company comparison analysis'',
        a_suggested_actions = [], a_results = NoResults, a_execution_plan = [],
        a_error = Val ''Failed to process natural language query: Error: Company comparison failed: timeout'',
        a_fallback_suggestion = Val ''Try using specific tool names like get_all_companies, get_recent_news, or get_board_interlocks''\<rparr>
   \<and> a_results (fst (analyzeNaturalQuery ex_failing_operations ''compare foo vs bar''
        Undefined []))
     = ErrorSuggestion ''Could not identify companies to compare'' comparison_suggestion"
  using C2_comparison_routing [of ex_failing_operations Undefined "[]"]
  by (simp add: ex_failing_operations_def ex_echo_operations_def io_throw_def)

end
